theory Spec2Isabelle
  imports Main "HOL-Library.Sublist"
begin

section \<open>JavaScript strings\<close>

text \<open>
  A JavaScript string is a sequence of UTF-16 code units. The embedding uses \<^typ>\<open>string\<close>:
  one \<^typ>\<open>char\<close> per code unit, for code units \<open>U+0000\<close> to \<open>U+00FF\<close>. All keywords,
  mapping keys, regular expressions and templates of the program are ASCII.
\<close>

definition code :: "char \<Rightarrow> nat" where
  "code c = of_char c"

text \<open>\<open>String.prototype.toLowerCase\<close>, code unit by code unit: \<open>A-Z\<close> and the Latin-1
  capitals \<open>U+00C0..U+00DE\<close> (without the multiplication sign) move up by 32.\<close>

definition toLowerCase_char :: "char \<Rightarrow> char" where
  "toLowerCase_char c =
     (if (65 \<le> code c \<and> code c \<le> 90) \<or> (192 \<le> code c \<and> code c \<le> 222 \<and> code c \<noteq> 215)
      then char_of (code c + 32) else c)"

definition toLowerCase :: "string \<Rightarrow> string" where
  "toLowerCase s = map toLowerCase_char s"

text \<open>\<open>s.includes(kw)\<close>: \<open>kw\<close> occurs in \<open>s\<close> as a contiguous substring.\<close>

fun str_includes :: "string \<Rightarrow> string \<Rightarrow> bool" where
  "str_includes [] kw = (kw = [])"
| "str_includes (c # cs) kw = (prefix kw (c # cs) \<or> str_includes cs kw)"


text \<open>\<open>charAt(0).toUpperCase()\<close> of one code unit; the result is a string because the capital
  of \<open>U+00DF\<close> is \<open>SS\<close>. The capitals of \<open>U+00B5\<close> and \<open>U+00FF\<close> lie outside Latin-1;
  the embedding leaves these two code units as they are.\<close>

definition toUpperCase_char :: "char \<Rightarrow> string" where
  "toUpperCase_char c =
     (if 97 \<le> code c \<and> code c \<le> 122 then [char_of (code c - 32)]
      else if code c = 223 then ''SS''
      else if 224 \<le> code c \<and> code c \<le> 254 \<and> code c \<noteq> 247 then [char_of (code c - 32)]
      else [c])"

text \<open>\<open>parts.join(sep)\<close>.\<close>

fun join :: "string \<Rightarrow> string list \<Rightarrow> string" where
  "join sep [] = []"
| "join sep [x] = x"
| "join sep (x # y # ys) = x @ sep @ join sep (y # ys)"

text \<open>\<open>s.substring(0, 200)\<close>.\<close>

definition substring_0_200 :: "string \<Rightarrow> string" where
  "substring_0_200 s = take 200 s"

subsection \<open>Character classes of the regular expressions\<close>

text \<open>\<open>[a-zA-Z]\<close>; \<open>\w\<close> is \<open>[A-Za-z0-9_]\<close>; \<open>\s\<close> (and \<open>trim\<close>) is tab, LF, VT, FF, CR,
  space and \<open>U+00A0\<close>; \<open>.\<close> excludes the line terminators LF and CR.\<close>

definition isAsciiLetter :: "char \<Rightarrow> bool" where
  "isAsciiLetter c = ((65 \<le> code c \<and> code c \<le> 90) \<or> (97 \<le> code c \<and> code c \<le> 122))"

definition isWordChar :: "char \<Rightarrow> bool" where
  "isWordChar c = (isAsciiLetter c \<or> (48 \<le> code c \<and> code c \<le> 57) \<or> code c = 95)"

definition isWhiteSpace :: "char \<Rightarrow> bool" where
  "isWhiteSpace c = ((9 \<le> code c \<and> code c \<le> 13) \<or> code c = 32 \<or> code c = 160)"

definition isLineTerminator :: "char \<Rightarrow> bool" where
  "isLineTerminator c = (code c = 10 \<or> code c = 13)"

text \<open>\<open>Canonicalize\<close> of the \<open>i\<close> flag (no \<open>u\<close> flag): the capital of the code unit when
  that is one code unit. The two code units whose capital lies outside Latin-1 stay distinct
  from every other code unit either way.\<close>

definition canonicalize :: "char \<Rightarrow> char" where
  "canonicalize c =
     (if (97 \<le> code c \<and> code c \<le> 122) \<or> (224 \<le> code c \<and> code c \<le> 254 \<and> code c \<noteq> 247)
      then char_of (code c - 32) else c)"

text \<open>A literal pattern matches case-insensitively at the head of the text.\<close>

fun ci_prefix :: "string \<Rightarrow> string \<Rightarrow> bool" where
  "ci_prefix [] s = True"
| "ci_prefix (p # ps) [] = False"
| "ci_prefix (p # ps) (c # cs) = (canonicalize p = canonicalize c \<and> ci_prefix ps cs)"

definition head_opt :: "string \<Rightarrow> char option" where
  "head_opt s = (case s of [] \<Rightarrow> None | c # _ \<Rightarrow> Some c)"

definition isWordChar_opt :: "char option \<Rightarrow> bool" where
  "isWordChar_opt a = (case a of None \<Rightarrow> False | Some c \<Rightarrow> isWordChar c)"

text \<open>\<open>\b\<close> between the code unit before a position and the one after it (\<open>None\<close> at
  either end of the text).\<close>

definition boundary :: "char option \<Rightarrow> char option \<Rightarrow> bool" where
  "boundary a b = (isWordChar_opt a \<noteq> isWordChar_opt b)"

subsection \<open>\<open>String.prototype.replace\<close> with a string pattern\<close>

text \<open>\<open>GetSubstitution\<close> for a string pattern (no captures): in the replacement text
  \<open>$$\<close> is a dollar sign, \<open>$&\<close> the matched text, \<open>$`\<close> the text before the match and
  \<open>$'\<close> the text after it; every other dollar sign is literal.\<close>

fun GetSubstitution :: "string \<Rightarrow> string \<Rightarrow> string \<Rightarrow> string \<Rightarrow> string" where
  "GetSubstitution matched pre post [] = []"
| "GetSubstitution matched pre post [c] = [c]"
| "GetSubstitution matched pre post (c # d # ds) =
     (if c = CHR ''$'' \<and> d = CHR ''$'' then CHR ''$'' # GetSubstitution matched pre post ds
      else if c = CHR ''$'' \<and> d = CHR ''&'' then matched @ GetSubstitution matched pre post ds
      else if c = CHR ''$'' \<and> d = CHR 0x60 then pre @ GetSubstitution matched pre post ds
      else if c = CHR ''$'' \<and> d = CHR 0x27 then post @ GetSubstitution matched pre post ds
      else c # GetSubstitution matched pre post (d # ds))"

text \<open>The text before and after the first occurrence of the pattern (\<open>indexOf\<close>).\<close>

fun split_first :: "string \<Rightarrow> string \<Rightarrow> (string \<times> string) option" where
  "split_first pat [] = (if pat = [] then Some ([], []) else None)"
| "split_first pat (c # cs) =
     (if prefix pat (c # cs) then Some ([], drop (length pat) (c # cs))
      else (case split_first pat cs of None \<Rightarrow> None | Some (b, a) \<Rightarrow> Some (c # b, a)))"

text \<open>\<open>s.replace(pat, repl)\<close> with two strings: only the first occurrence is replaced.\<close>

definition js_replace :: "string \<Rightarrow> string \<Rightarrow> string \<Rightarrow> string" where
  "js_replace s pat repl =
     (case split_first pat s of
        None \<Rightarrow> s
      | Some (b, a) \<Rightarrow> b @ GetSubstitution pat b a repl @ a)"

text \<open>An uppercase ASCII letter, \<open>[A-Z]\<close>.\<close>

definition isAsciiUpper :: "char \<Rightarrow> bool" where
  "isAsciiUpper c = (65 \<le> code c \<and> code c \<le> 90)"

section \<open>Types of the extension\<close>

datatype TaskIntent =
  IFix | IAdd | IChange | IExplain | ITest | IReview | IImprove | IDocument

record PromptContext =
  fileName :: "string option"
  filePath :: "string option"
  language :: "string option"
  selectedCode :: "string option"
  projectStructure :: "string option"
  gitStatus :: "string option"
  relatedFiles :: "string list option"

record IncludeContext =
  inc_file :: bool
  inc_selection :: bool
  inc_project :: bool
  inc_git :: bool

record PromptRequest =
  intent :: TaskIntent
  userInput :: string
  req_context :: PromptContext
  includeContext :: IncludeContext

record EnhancedPrompt =
  prompt :: string
  preview :: string
  wasAiEnhanced :: bool

datatype LLMProvider =
  ClaudeCode | Cursor | Copilot | Continue | Cody | Manual | NoProvider

record LLMDetectionResult =
  provider :: LLMProvider
  available :: bool
  canEnhance :: bool
  displayName :: string

record PromptTemplate =
  tpl_id :: string
  tpl_name :: string
  tpl_intent :: TaskIntent
  template :: string
  description :: string
  placeholders :: "string list"

record RuleMapping =
  trigger_words :: "string list"
  expansion :: string
  technicalTerms :: "string list"

section \<open>Template catalog\<close>

definition template_fix_bug :: PromptTemplate where
  "template_fix_bug =
     \<lparr>tpl_id = ''fix-bug'', tpl_name = ''Fix Bug'', tpl_intent = IFix,
      template =
          ''Fix the bug in this code. The issue is: {issue}\<newline>''
        @ ''\<newline>''
        @ ''{context}\<newline>''
        @ ''\<newline>''
        @ ''Please:\<newline>''
        @ ''1. Identify the root cause of the bug\<newline>''
        @ ''2. Provide a corrected implementation\<newline>''
        @ ''3. Explain what was wrong and why the fix works'',
      description = ''Debug and fix issues in code'', placeholders = [''issue'']\<rparr>"

definition template_fix_error :: PromptTemplate where
  "template_fix_error =
     \<lparr>tpl_id = ''fix-error'', tpl_name = ''Fix Error'', tpl_intent = IFix,
      template =
          ''I'm getting this error: {error}\<newline>''
        @ ''\<newline>''
        @ ''{context}\<newline>''
        @ ''\<newline>''
        @ ''Please help me:\<newline>''
        @ ''1. Understand what's causing this error\<newline>''
        @ ''2. Fix the code to resolve it\<newline>''
        @ ''3. Prevent similar errors in the future'',
      description = ''Fix specific error messages'', placeholders = [''error'']\<rparr>"

definition template_add_feature :: PromptTemplate where
  "template_add_feature =
     \<lparr>tpl_id = ''add-feature'', tpl_name = ''Add Feature'', tpl_intent = IAdd,
      template =
          ''Add the following feature: {feature}\<newline>''
        @ ''\<newline>''
        @ ''{context}\<newline>''
        @ ''\<newline>''
        @ ''Requirements:\<newline>''
        @ ''- Follow existing code patterns and conventions\<newline>''
        @ ''- Include proper error handling\<newline>''
        @ ''- Make it production-ready'',
      description = ''Implement new functionality'', placeholders = [''feature'']\<rparr>"

definition template_add_function :: PromptTemplate where
  "template_add_function =
     \<lparr>tpl_id = ''add-function'', tpl_name = ''Add Function'', tpl_intent = IAdd,
      template =
          ''Create a function that: {description}\<newline>''
        @ ''\<newline>''
        @ ''{context}\<newline>''
        @ ''\<newline>''
        @ ''Please:\<newline>''
        @ ''- Use appropriate parameter types\<newline>''
        @ ''- Include input validation\<newline>''
        @ ''- Handle edge cases\<newline>''
        @ ''- Add JSDoc/docstring comments'',
      description = ''Create a new function'', placeholders = [''description'']\<rparr>"

definition template_change_refactor :: PromptTemplate where
  "template_change_refactor =
     \<lparr>tpl_id = ''change-refactor'', tpl_name = ''Refactor Code'', tpl_intent = IChange,
      template =
          ''Refactor this code to: {goal}\<newline>''
        @ ''\<newline>''
        @ ''{context}\<newline>''
        @ ''\<newline>''
        @ ''Guidelines:\<newline>''
        @ ''- Maintain the same functionality\<newline>''
        @ ''- Improve code quality and readability\<newline>''
        @ ''- Follow best practices for this language'',
      description = ''Improve code structure'', placeholders = [''goal'']\<rparr>"

definition template_change_update :: PromptTemplate where
  "template_change_update =
     \<lparr>tpl_id = ''change-update'', tpl_name = ''Update Code'', tpl_intent = IChange,
      template =
          ''Update this code: {changes}\<newline>''
        @ ''\<newline>''
        @ ''{context}\<newline>''
        @ ''\<newline>''
        @ ''Please ensure:\<newline>''
        @ ''- Backward compatibility where possible\<newline>''
        @ ''- All related code is updated consistently\<newline>''
        @ ''- No functionality is broken'',
      description = ''Modify existing code'', placeholders = [''changes'']\<rparr>"

definition template_explain_code :: PromptTemplate where
  "template_explain_code =
     \<lparr>tpl_id = ''explain-code'', tpl_name = ''Explain Code'', tpl_intent = IExplain,
      template =
          ''Explain this code in detail:\<newline>''
        @ ''\<newline>''
        @ ''{context}\<newline>''
        @ ''\<newline>''
        @ ''Please cover:\<newline>''
        @ ''1. What this code does (high-level overview)\<newline>''
        @ ''2. How it works (step-by-step breakdown)\<newline>''
        @ ''3. Key concepts or patterns used\<newline>''
        @ ''4. Any potential issues or improvements'',
      description = ''Get detailed code explanation'', placeholders = []\<rparr>"

definition template_explain_simple :: PromptTemplate where
  "template_explain_simple =
     \<lparr>tpl_id = ''explain-simple'', tpl_name = ''Explain Simply'', tpl_intent = IExplain,
      template =
          ''Explain this code in simple terms that a beginner can understand:\<newline>''
        @ ''\<newline>''
        @ ''{context}\<newline>''
        @ ''\<newline>''
        @ ''Use:\<newline>''
        @ ''- Simple language, avoid jargon\<newline>''
        @ ''- Analogies where helpful\<newline>''
        @ ''- Step-by-step breakdown'',
      description = ''Get beginner-friendly explanation'', placeholders = []\<rparr>"

definition template_test_unit :: PromptTemplate where
  "template_test_unit =
     \<lparr>tpl_id = ''test-unit'', tpl_name = ''Write Unit Tests'', tpl_intent = ITest,
      template =
          ''Write unit tests for this code:\<newline>''
        @ ''\<newline>''
        @ ''{context}\<newline>''
        @ ''\<newline>''
        @ ''Include tests for:\<newline>''
        @ ''- Normal/expected inputs\<newline>''
        @ ''- Edge cases\<newline>''
        @ ''- Error conditions\<newline>''
        @ ''- Boundary values\<newline>''
        @ ''\<newline>''
        @ ''Use the testing framework appropriate for this language/project.'',
      description = ''Generate unit tests'', placeholders = []\<rparr>"

definition template_test_specific :: PromptTemplate where
  "template_test_specific =
     \<lparr>tpl_id = ''test-specific'', tpl_name = ''Test Specific Scenario'', tpl_intent = ITest,
      template =
          ''Write tests for the following scenario: {scenario}\<newline>''
        @ ''\<newline>''
        @ ''{context}\<newline>''
        @ ''\<newline>''
        @ ''Make sure to cover:\<newline>''
        @ ''- The main scenario\<newline>''
        @ ''- Related edge cases\<newline>''
        @ ''- Failure modes'',
      description = ''Test specific functionality'', placeholders = [''scenario'']\<rparr>"

definition template_review_code :: PromptTemplate where
  "template_review_code =
     \<lparr>tpl_id = ''review-code'', tpl_name = ''Code Review'', tpl_intent = IReview,
      template =
          ''Review this code for:\<newline>''
        @ ''\<newline>''
        @ ''{context}\<newline>''
        @ ''\<newline>''
        @ ''Please check for:\<newline>''
        @ ''1. Bugs or logic errors\<newline>''
        @ ''2. Security vulnerabilities\<newline>''
        @ ''3. Performance issues\<newline>''
        @ ''4. Code style and best practices\<newline>''
        @ ''5. Suggestions for improvement'',
      description = ''Get comprehensive code review'', placeholders = []\<rparr>"

definition template_review_security :: PromptTemplate where
  "template_review_security =
     \<lparr>tpl_id = ''review-security'', tpl_name = ''Security Review'', tpl_intent = IReview,
      template =
          ''Perform a security review of this code:\<newline>''
        @ ''\<newline>''
        @ ''{context}\<newline>''
        @ ''\<newline>''
        @ ''Check for:\<newline>''
        @ ''- Input validation issues\<newline>''
        @ ''- Injection vulnerabilities (SQL, XSS, etc.)\<newline>''
        @ ''- Authentication/authorization flaws\<newline>''
        @ ''- Data exposure risks\<newline>''
        @ ''- Other OWASP Top 10 vulnerabilities'',
      description = ''Focus on security issues'', placeholders = []\<rparr>"

definition template_improve_performance :: PromptTemplate where
  "template_improve_performance =
     \<lparr>tpl_id = ''improve-performance'', tpl_name = ''Improve Performance'', tpl_intent = IImprove,
      template =
          ''Optimize this code for better performance:\<newline>''
        @ ''\<newline>''
        @ ''{context}\<newline>''
        @ ''\<newline>''
        @ ''Focus on:\<newline>''
        @ ''- Reducing time complexity\<newline>''
        @ ''- Minimizing memory usage\<newline>''
        @ ''- Eliminating unnecessary operations\<newline>''
        @ ''- Using more efficient algorithms/data structures'',
      description = ''Optimize code performance'', placeholders = []\<rparr>"

definition template_improve_readability :: PromptTemplate where
  "template_improve_readability =
     \<lparr>tpl_id = ''improve-readability'', tpl_name = ''Improve Readability'', tpl_intent = IImprove,
      template =
          ''Improve the readability of this code:\<newline>''
        @ ''\<newline>''
        @ ''{context}\<newline>''
        @ ''\<newline>''
        @ ''Please:\<newline>''
        @ ''- Use clearer variable/function names\<newline>''
        @ ''- Break down complex logic\<newline>''
        @ ''- Add helpful comments where needed\<newline>''
        @ ''- Follow language conventions'',
      description = ''Make code more readable'', placeholders = []\<rparr>"

definition template_document_code :: PromptTemplate where
  "template_document_code =
     \<lparr>tpl_id = ''document-code'', tpl_name = ''Add Documentation'', tpl_intent = IDocument,
      template =
          ''Add documentation to this code:\<newline>''
        @ ''\<newline>''
        @ ''{context}\<newline>''
        @ ''\<newline>''
        @ ''Include:\<newline>''
        @ ''- Function/method documentation (JSDoc, docstrings, etc.)\<newline>''
        @ ''- Inline comments for complex logic\<newline>''
        @ ''- Usage examples where helpful'',
      description = ''Generate code documentation'', placeholders = []\<rparr>"

definition template_document_readme :: PromptTemplate where
  "template_document_readme =
     \<lparr>tpl_id = ''document-readme'', tpl_name = ''Write README'', tpl_intent = IDocument,
      template =
          ''Write a README for this code/project:\<newline>''
        @ ''\<newline>''
        @ ''{context}\<newline>''
        @ ''\<newline>''
        @ ''Include:\<newline>''
        @ ''- Project description\<newline>''
        @ ''- Installation instructions\<newline>''
        @ ''- Usage examples\<newline>''
        @ ''- API documentation (if applicable)\<newline>''
        @ ''- Contributing guidelines'',
      description = ''Create README documentation'', placeholders = []\<rparr>"

definition PROMPT_TEMPLATES :: "PromptTemplate list" where
  "PROMPT_TEMPLATES =
     [template_fix_bug,
      template_fix_error,
      template_add_feature,
      template_add_function,
      template_change_refactor,
      template_change_update,
      template_explain_code,
      template_explain_simple,
      template_test_unit,
      template_test_specific,
      template_review_code,
      template_review_security,
      template_improve_performance,
      template_improve_readability,
      template_document_code,
      template_document_readme]"

definition getTemplatesByIntent :: "TaskIntent \<Rightarrow> PromptTemplate list" where
  "getTemplatesByIntent i = filter (\<lambda>t. tpl_intent t = i) PROMPT_TEMPLATES"

section \<open>Rule engine\<close>

subsection \<open>Intent detection\<close>


text \<open>\<open>INTENT_KEYWORDS\<close>, in the order \<open>Object.entries\<close> enumerates it.\<close>

definition INTENT_KEYWORDS :: "(TaskIntent \<times> string list) list" where
  "INTENT_KEYWORDS =
   [(IFix, [''fix'', ''bug'', ''error'', ''broken'', ''not work'', ''doesnt work'',
            ''doesn't work'', ''fail'', ''crash'', ''issue'', ''problem'', ''wrong'',
            ''debug'', ''repair'', ''solve'']),
    (IAdd, [''add'', ''create'', ''new'', ''implement'', ''make'', ''build'', ''write'',
            ''generate'', ''insert'']),
    (IChange, [''change'', ''update'', ''modify'', ''edit'', ''refactor'', ''rename'', ''move'',
               ''replace'', ''convert'', ''transform'']),
    (IExplain, [''explain'', ''what'', ''how'', ''why'', ''understand'', ''mean'', ''does this'',
                ''tell me'', ''describe'', ''clarify'']),
    (ITest, [''test'', ''testing'', ''unit test'', ''spec'', ''coverage'', ''mock'', ''assert'']),
    (IReview, [''review'', ''check'', ''audit'', ''inspect'', ''analyze'', ''evaluate'',
               ''assess'']),
    (IImprove, [''improve'', ''optimize'', ''faster'', ''better'', ''performance'', ''speed'',
                ''efficient'', ''enhance'', ''upgrade'', ''clean'']),
    (IDocument, [''document'', ''docs'', ''readme'', ''comment'', ''jsdoc'', ''docstring'',
                 ''documentation''])]"

text \<open>The inner loop of \<open>detectIntent\<close>: \<open>score += keyword.length\<close> for every keyword the
  lowered input includes.\<close>

definition keyword_score :: "string \<Rightarrow> string list \<Rightarrow> nat" where
  "keyword_score lowerInput keywords =
     fold (\<lambda>keyword score. if str_includes lowerInput keyword then score + length keyword else score)
       keywords 0"

text \<open>The outer loop: the pair is \<open>(bestMatch, highestScore)\<close>, starting at \<open>('fix', 0)\<close>.\<close>

definition detectIntent_step ::
  "string \<Rightarrow> TaskIntent \<times> string list \<Rightarrow> TaskIntent \<times> nat \<Rightarrow> TaskIntent \<times> nat" where
  "detectIntent_step lowerInput entry best =
     (let score = keyword_score lowerInput (snd entry)
      in if score > snd best then (fst entry, score) else best)"

definition detectIntent :: "string \<Rightarrow> TaskIntent" where
  "detectIntent input =
     (let lowerInput = toLowerCase input
      in fst (fold (detectIntent_step lowerInput) INTENT_KEYWORDS (IFix, 0)))"

text \<open>The classifier as the specification words it: the total of an intent is the sum of the
  lengths of its keywords that are substrings of the lowered input.\<close>

definition intent_order :: "TaskIntent list" where
  "intent_order = [IFix, IAdd, IChange, IExplain, ITest, IReview, IImprove, IDocument]"

definition keywords_of :: "TaskIntent \<Rightarrow> string list" where
  "keywords_of i = (case map_of INTENT_KEYWORDS i of Some ks \<Rightarrow> ks | None \<Rightarrow> [])"

definition intent_total :: "string \<Rightarrow> TaskIntent \<Rightarrow> nat" where
  "intent_total input i =
     sum_list (map length (filter (\<lambda>k. sublist k (toLowerCase input)) (keywords_of i)))"

definition rank :: "TaskIntent \<Rightarrow> nat" where
  "rank i = (case i of IFix \<Rightarrow> 0 | IAdd \<Rightarrow> 1 | IChange \<Rightarrow> 2 | IExplain \<Rightarrow> 3 | ITest \<Rightarrow> 4
     | IReview \<Rightarrow> 5 | IImprove \<Rightarrow> 6 | IDocument \<Rightarrow> 7)"

subsection \<open>Word expansion\<close>

text \<open>\<open>WORD_EXPANSIONS\<close>, in the order \<open>Object.entries\<close> enumerates it. No key is empty
  and no key holds a character that is special in a regular expression.\<close>

definition WORD_EXPANSIONS :: "(string \<times> string) list" where
  "WORD_EXPANSIONS =
   [(''fix'', ''fix and debug''),
    (''broken'', ''not working correctly''),
    (''slow'', ''has performance issues and runs slowly''),
    (''fast'', ''optimized for better performance''),
    (''work'', ''function correctly''),
    (''not work'', ''is not functioning as expected''),
    (''doesnt work'', ''is not functioning as expected''),
    (''doesn't work'', ''is not functioning as expected''),
    (''bad'', ''poorly structured or inefficient''),
    (''good'', ''well-structured and efficient''),
    (''ugly'', ''poorly formatted and hard to read''),
    (''clean'', ''well-organized and readable''),
    (''messy'', ''disorganized and hard to maintain''),
    (''make'', ''implement''),
    (''do'', ''implement''),
    (''want'', ''need to''),
    (''need'', ''require''),
    (''btn'', ''button''),
    (''func'', ''function''),
    (''var'', ''variable''),
    (''arr'', ''array''),
    (''obj'', ''object''),
    (''str'', ''string''),
    (''num'', ''number''),
    (''bool'', ''boolean''),
    (''db'', ''database''),
    (''api'', ''API endpoint''),
    (''auth'', ''authentication''),
    (''err'', ''error''),
    (''msg'', ''message''),
    (''req'', ''request''),
    (''res'', ''response''),
    (''param'', ''parameter''),
    (''arg'', ''argument''),
    (''props'', ''properties''),
    (''config'', ''configuration'')]"

text \<open>\<open>.sort((a, b) => b[0].length - a[0].length)\<close>: a stable sort, longest key first.\<close>

definition sortedExpansions :: "(string \<times> string) list" where
  "sortedExpansions = sort_key (\<lambda>e. - int (length (fst e))) WORD_EXPANSIONS"

text \<open>The regular expression \<open>\bword\b\<close> with flags \<open>gi\<close> matches at the head of \<open>s\<close>, where
  \<open>prev\<close> is the code unit before \<open>s\<close> in the whole text.\<close>

definition word_match_at :: "char option \<Rightarrow> string \<Rightarrow> string \<Rightarrow> bool" where
  "word_match_at prev s word =
     (ci_prefix word s
      \<and> boundary prev (head_opt s)
      \<and> boundary (head_opt (drop (length word - 1) s)) (head_opt (drop (length word) s)))"

text \<open>\<open>result.replace(regex, expansion)\<close> for a non-empty word: the scan goes left to right
  over the text; \<open>skip\<close> counts the code units of the current match still to be passed over.
  No expansion holds a dollar sign, so the replacement text is the expansion itself.\<close>

fun replace_word_scan :: "string \<Rightarrow> string \<Rightarrow> nat \<Rightarrow> char option \<Rightarrow> string \<Rightarrow> string" where
  "replace_word_scan word replacement skip prev [] = []"
| "replace_word_scan word replacement (Suc k) prev (c # cs) =
     replace_word_scan word replacement k (Some c) cs"
| "replace_word_scan word replacement 0 prev (c # cs) =
     (if word_match_at prev (c # cs) word
      then replacement @ replace_word_scan word replacement (length word - 1) (Some c) cs
      else c # replace_word_scan word replacement 0 (Some c) cs)"

definition replace_word :: "string \<Rightarrow> string \<Rightarrow> string \<Rightarrow> string" where
  "replace_word word replacement s = replace_word_scan word replacement 0 None s"

definition expandWords :: "string \<Rightarrow> string" where
  "expandWords input =
     fold (\<lambda>entry result. replace_word (fst entry) (snd entry) result) sortedExpansions input"



subsection \<open>Technical terms\<close>

definition TECHNICAL_ENHANCEMENTS :: "RuleMapping list" where
  "TECHNICAL_ENHANCEMENTS =
   [\<lparr>trigger_words = [''button'', ''click'', ''press''], expansion = ''button click handler'',
     technicalTerms = [''onClick event'', ''event handler'', ''user interaction'']\<rparr>,
    \<lparr>trigger_words = [''form'', ''submit'', ''input''], expansion = ''form submission'',
     technicalTerms = [''form validation'', ''input handling'', ''form state'']\<rparr>,
    \<lparr>trigger_words = [''login'', ''signin'', ''sign in''], expansion = ''user authentication'',
     technicalTerms = [''authentication flow'', ''credentials'', ''session management'']\<rparr>,
    \<lparr>trigger_words = [''save'', ''store'', ''persist''], expansion = ''data persistence'',
     technicalTerms = [''storage'', ''database operation'', ''state management'']\<rparr>,
    \<lparr>trigger_words = [''load'', ''fetch'', ''get data''], expansion = ''data fetching'',
     technicalTerms = [''API call'', ''async operation'', ''data loading'']\<rparr>,
    \<lparr>trigger_words = [''show'', ''display'', ''render'', ''visible''], expansion = ''UI rendering'',
     technicalTerms = [''component rendering'', ''visibility'', ''display logic'']\<rparr>,
    \<lparr>trigger_words = [''hide'', ''invisible'', ''remove''], expansion = ''UI visibility'',
     technicalTerms = [''conditional rendering'', ''display state'', ''DOM manipulation'']\<rparr>,
    \<lparr>trigger_words = [''list'', ''array'', ''items'', ''loop''], expansion = ''list/array handling'',
     technicalTerms = [''iteration'', ''array methods'', ''list rendering'']\<rparr>,
    \<lparr>trigger_words = [''error'', ''catch'', ''fail'', ''exception''], expansion = ''error handling'',
     technicalTerms = [''try-catch'', ''error boundary'', ''exception handling'']\<rparr>,
    \<lparr>trigger_words = [''async'', ''await'', ''promise'', ''wait''],
     expansion = ''asynchronous operation'',
     technicalTerms = [''Promise'', ''async/await'', ''asynchronous flow'']\<rparr>,
    \<lparr>trigger_words = [''style'', ''css'', ''color'', ''layout''], expansion = ''styling'',
     technicalTerms = [''CSS'', ''styling'', ''layout'']\<rparr>,
    \<lparr>trigger_words = [''route'', ''page'', ''navigate'', ''url''], expansion = ''routing/navigation'',
     technicalTerms = [''routing'', ''navigation'', ''URL handling'']\<rparr>,
    \<lparr>trigger_words = [''state'', ''update'', ''change value''], expansion = ''state management'',
     technicalTerms = [''state update'', ''reactivity'', ''state management'']\<rparr>,
    \<lparr>trigger_words = [''type'', ''typescript'', ''interface''], expansion = ''type definition'',
     technicalTerms = [''TypeScript'', ''type safety'', ''interface definition'']\<rparr>]"

text \<open>\<open>[...new Set(termsAdded)]\<close>: the first occurrence of every term, in order.\<close>

definition unique_terms :: "string list \<Rightarrow> string list" where
  "unique_terms xs = fold (\<lambda>x seen. if x \<in> set seen then seen else seen @ [x]) xs []"

text \<open>The loop of \<open>addTechnicalTerms\<close>: \<open>termsAdded.push(...mapping.technicalTerms)\<close> for
  every mapping one of whose words the lowered input includes.\<close>

definition collect_terms :: "string \<Rightarrow> string list" where
  "collect_terms lowerInput =
     fold (\<lambda>mapping termsAdded.
             if list_ex (\<lambda>kw. str_includes lowerInput kw) (trigger_words mapping)
             then termsAdded @ technicalTerms mapping else termsAdded)
       TECHNICAL_ENHANCEMENTS []"

text \<open>The result is the pair \<open>(enhanced, termsAdded)\<close>; \<open>enhanced\<close> is the input itself.\<close>

definition addTechnicalTerms :: "string \<Rightarrow> string \<times> string list" where
  "addTechnicalTerms input =
     (let lowerInput = toLowerCase input;
          termsAdded = collect_terms lowerInput;
          uniqueTerms = unique_terms termsAdded
      in (input, uniqueTerms))"

subsection \<open>Sentence structure\<close>

text \<open>\<open>/(\w+)\s+not\s+work/gi\<close> at the head of the text: the first group and the length of
  the match. Every quantifier is greedy and no shorter choice can lead to a match, so there
  is one candidate.\<close>

definition match_not_work :: "string \<Rightarrow> (string \<times> nat) option" where
  "match_not_work s =
     (let w = takeWhile isWordChar s; r1 = dropWhile isWordChar s;
          s1 = takeWhile isWhiteSpace r1; r2 = dropWhile isWhiteSpace r1;
          r3 = drop 3 r2;
          s2 = takeWhile isWhiteSpace r3; r4 = dropWhile isWhiteSpace r3
      in if w \<noteq> [] \<and> s1 \<noteq> [] \<and> ci_prefix ''not'' r2 \<and> s2 \<noteq> [] \<and> ci_prefix ''work'' r4
         then Some (w, length w + length s1 + 3 + length s2 + 4) else None)"

text \<open>The global replacement by \<open>'$1 is not working correctly'\<close>.\<close>

fun not_work_scan :: "nat \<Rightarrow> string \<Rightarrow> string" where
  "not_work_scan skip [] = []"
| "not_work_scan (Suc k) (c # cs) = not_work_scan k cs"
| "not_work_scan 0 (c # cs) =
     (case match_not_work (c # cs) of
        Some (w, n) \<Rightarrow> w @ '' is not working correctly'' @ not_work_scan (n - 1) cs
      | None \<Rightarrow> c # not_work_scan 0 cs)"

definition replace_not_work :: "string \<Rightarrow> string" where
  "replace_not_work s = not_work_scan 0 s"

text \<open>\<open>\s+(.+)\<close> after a leading word: \<open>\s+\<close> first takes all \<open>n\<close> white-space code units
  and gives them back one by one until \<open>.+\<close> finds a code unit that is no line terminator.
  The result is the group and the length of white space and group together.\<close>

fun space_dot_plus :: "nat \<Rightarrow> string \<Rightarrow> (string \<times> nat) option" where
  "space_dot_plus 0 s = None"
| "space_dot_plus (Suc k) s =
     (let g = takeWhile (\<lambda>c. \<not> isLineTerminator c) (drop (Suc k) s)
      in if g \<noteq> [] then Some (g, Suc k + length g) else space_dot_plus k s)"

text \<open>\<open>/^make\s+(.+)/i\<close> and \<open>/^want\s+(.+)/i\<close>, replaced by \<open>'Implement $1'\<close> and
  \<open>'I need $1'\<close>: the text after the match is kept.\<close>

definition replace_lead :: "string \<Rightarrow> string \<Rightarrow> string \<Rightarrow> string" where
  "replace_lead lead repl s =
     (if ci_prefix lead s
      then (let r = drop (length lead) s
            in case space_dot_plus (length (takeWhile isWhiteSpace r)) r of
                 Some (g, m) \<Rightarrow> repl @ g @ drop m r
               | None \<Rightarrow> s)
      else s)"

text \<open>\<open>/^how\s+(\w+)$/i\<close>, replaced by \<open>'How does $1 work'\<close>.\<close>

definition replace_how :: "string \<Rightarrow> string" where
  "replace_how s =
     (if ci_prefix ''how'' s
      then (let r = drop 3 s;
                sp = takeWhile isWhiteSpace r; r1 = dropWhile isWhiteSpace r;
                w = takeWhile isWordChar r1; r2 = dropWhile isWordChar r1
            in if sp \<noteq> [] \<and> w \<noteq> [] \<and> r2 = [] then ''How does '' @ w @ '' work'' else s)
      else s)"

text \<open>\<open>/([a-zA-Z])$/i\<close>, replaced by \<open>'$1.'\<close>.\<close>

definition replace_final_letter :: "string \<Rightarrow> string" where
  "replace_final_letter s = (if s \<noteq> [] \<and> isAsciiLetter (last s) then s @ ''.'' else s)"

definition STRUCTURE_PATTERNS :: "(string \<Rightarrow> string) list" where
  "STRUCTURE_PATTERNS =
     [replace_not_work,
      replace_lead ''make'' ''Implement '',
      replace_lead ''want'' ''I need '',
      replace_how,
      replace_final_letter]"

text \<open>\<open>result.charAt(0).toUpperCase() + result.slice(1)\<close>.\<close>

definition capitalize :: "string \<Rightarrow> string" where
  "capitalize s = (case s of [] \<Rightarrow> [] | c # cs \<Rightarrow> toUpperCase_char c @ cs)"

definition improveStructure :: "string \<Rightarrow> string" where
  "improveStructure input =
     capitalize (fold (\<lambda>rule result. rule result) STRUCTURE_PATTERNS input)"

subsection \<open>Context block\<close>

text \<open>An optional string is truthy when it is present and not empty.\<close>

definition truthy_str :: "string option \<Rightarrow> bool" where
  "truthy_str x = (case x of None \<Rightarrow> False | Some s \<Rightarrow> s \<noteq> [])"

definition str_or_empty :: "string option \<Rightarrow> string" where
  "str_or_empty x = (case x of None \<Rightarrow> [] | Some s \<Rightarrow> s)"

definition formatContext :: "PromptRequest \<Rightarrow> string" where
  "formatContext request =
     (let c = req_context request; inc = includeContext request;
          parts1 =
            (if inc_file inc \<and> truthy_str (fileName c)
             then [''**File:** '' @ str_or_empty (fileName c)]
                  @ (if truthy_str (language c)
                     then [''**Language:** '' @ str_or_empty (language c)] else [])
             else []);
          parts2 =
            (if inc_selection inc \<and> truthy_str (selectedCode c)
             then [''\<newline>**Code:**\<newline>'' @ [CHR 0x60, CHR 0x60, CHR 0x60]
                   @ (if truthy_str (language c) then str_or_empty (language c) else [])
                   @ ''\<newline>'' @ str_or_empty (selectedCode c) @ ''\<newline>''
                   @ [CHR 0x60, CHR 0x60, CHR 0x60]]
             else []);
          parts3 =
            (if inc_project inc \<and> truthy_str (projectStructure c)
             then [''\<newline>**Project Structure:**\<newline>'' @ str_or_empty (projectStructure c)]
             else []);
          parts4 =
            (if inc_git inc \<and> truthy_str (gitStatus c)
             then [''\<newline>**Git Status:**\<newline>'' @ str_or_empty (gitStatus c)]
             else [])
      in join ''\<newline>'' (parts1 @ parts2 @ parts3 @ parts4))"

subsection \<open>The main enhancement function\<close>

text \<open>The chain of eight \<open>replace\<close> calls on the template text.\<close>

definition fill_template :: "string \<Rightarrow> string \<Rightarrow> string \<Rightarrow> string" where
  "fill_template tpl enhanced contextStr =
     js_replace (js_replace (js_replace (js_replace (js_replace (js_replace (js_replace (js_replace
       tpl ''{issue}'' enhanced)
           ''{error}'' enhanced)
           ''{feature}'' enhanced)
           ''{description}'' enhanced)
           ''{goal}'' enhanced)
           ''{changes}'' enhanced)
           ''{scenario}'' enhanced)
           ''{context}'' contextStr"

text \<open>The seven content placeholders, in the order of the chain.\<close>

definition content_placeholders :: "string list" where
  "content_placeholders =
     [''{issue}'', ''{error}'', ''{feature}'', ''{description}'', ''{goal}'', ''{changes}'',
      ''{scenario}'']"

definition related_concepts :: "string list \<Rightarrow> string" where
  "related_concepts termsAdded =
     ''\<newline>\<newline>*Related concepts: '' @ join '', '' termsAdded @ ''*''"

definition make_preview :: "string \<Rightarrow> string" where
  "make_preview finalPrompt =
     (if length finalPrompt > 200 then take 200 finalPrompt @ ''...'' else finalPrompt)"

definition RuleEngine_enhance :: "PromptRequest \<Rightarrow> EnhancedPrompt" where
  "RuleEngine_enhance request =
     (let enhanced = improveStructure (expandWords (userInput request));
          termsAdded = snd (addTechnicalTerms (userInput request));
          templates = getTemplatesByIntent (intent request);
          contextStr = formatContext request;
          finalPrompt0 =
            (case templates of
               t # _ \<Rightarrow> fill_template (template t) enhanced contextStr
             | [] \<Rightarrow> enhanced @ ''\<newline>\<newline>'' @ contextStr);
          finalPrompt =
            (if length termsAdded > 0 then finalPrompt0 @ related_concepts termsAdded
             else finalPrompt0)
      in \<lparr>prompt = finalPrompt, preview = make_preview finalPrompt, wasAiEnhanced = False\<rparr>)"

section \<open>AI enhancement\<close>

subsection \<open>The outside world\<close>

text \<open>A value read from a parsed JSON body; \<open>Undefined\<close> is what a missing property
  reads as. The program never computes with a number: only whether it is zero matters.\<close>

datatype jsval =
  Undefined | JNull | JBool bool | JNum int | JStr string
  | JArr "jsval list" | JObj "(string \<times> jsval) list"

text \<open>What \<open>fetch\<close> gives: the promise rejects (no connection, or the abort of the
  two-second timer), or a response arrives with a status and a body; \<open>response.json()\<close>
  rejects on a body that is not JSON.\<close>

datatype http_body = NotJson | JsonBody jsval

datatype fetch_result = Rejected | Response nat http_body

text \<open>The requests the program issues, by what varies in them: the tags probe of the local
  backend (endpoint), its generation call (endpoint, model, user input), and the two remote
  generation calls (API key, user input).\<close>

datatype request =
  GetTags string
  | PostGenerate string string string
  | PostAnthropic string string
  | PostOpenAI string string

datatype event = Fetch request | Exec string | GetExtension string | AppName

datatype exn =
  TypeError | SyntaxError | FetchFailed | ApiError string nat | UnknownProvider string

text \<open>The environment: the configuration store and what each external call answers. The
  number is the count of external calls made so far, so an answer may change over time.\<close>

record env =
  config :: "string \<rightharpoonup> string"
  fetch :: "nat \<Rightarrow> request \<Rightarrow> fetch_result"
  exec :: "nat \<Rightarrow> string \<Rightarrow> bool"
  getExtension :: "nat \<Rightarrow> string \<Rightarrow> bool"
  appName :: "string option"

text \<open>The fields of the two singletons \<open>aiEnhancer\<close> and \<open>llmDetector\<close>, and the log of the
  external calls made (latest last).\<close>

record state =
  ollamaAvailable :: "bool option"
  ollamaModels :: "jsval list"
  cachedResult :: "LLMDetectionResult option"
  lastCheck :: int
  calls :: "event list"

definition config_get :: "env \<Rightarrow> string \<Rightarrow> string \<Rightarrow> string" where
  "config_get e key dflt = (case config e key of Some v \<Rightarrow> v | None \<Rightarrow> dflt)"

definition do_fetch :: "env \<Rightarrow> request \<Rightarrow> state \<Rightarrow> fetch_result \<times> state" where
  "do_fetch e req s = (fetch e (length (calls s)) req, s\<lparr>calls := calls s @ [Fetch req]\<rparr>)"

definition do_exec :: "env \<Rightarrow> string \<Rightarrow> state \<Rightarrow> bool \<times> state" where
  "do_exec e cmd s = (exec e (length (calls s)) cmd, s\<lparr>calls := calls s @ [Exec cmd]\<rparr>)"

definition do_getExtension :: "env \<Rightarrow> string \<Rightarrow> state \<Rightarrow> bool \<times> state" where
  "do_getExtension e ext s =
     (getExtension e (length (calls s)) ext, s\<lparr>calls := calls s @ [GetExtension ext]\<rparr>)"

text \<open>\<open>response.ok\<close>.\<close>

definition ok :: "nat \<Rightarrow> bool" where
  "ok status = (200 \<le> status \<and> status \<le> 299)"

subsection \<open>Reading a parsed body\<close>

definition nullish :: "jsval \<Rightarrow> bool" where
  "nullish v = (v = Undefined \<or> v = JNull)"

definition truthy :: "jsval \<Rightarrow> bool" where
  "truthy v =
     (case v of Undefined \<Rightarrow> False | JNull \<Rightarrow> False | JBool b \<Rightarrow> b | JNum n \<Rightarrow> n \<noteq> 0
      | JStr s \<Rightarrow> s \<noteq> [] | JArr _ \<Rightarrow> True | JObj _ \<Rightarrow> True)"

text \<open>\<open>JSON.parse\<close> keeps the last of two equal keys.\<close>

definition obj_lookup :: "(string \<times> jsval) list \<Rightarrow> string \<Rightarrow> jsval" where
  "obj_lookup kvs name = (case map_of (rev kvs) name of Some x \<Rightarrow> x | None \<Rightarrow> Undefined)"

text \<open>\<open>v.name\<close> for one of the property names the program reads (\<open>models\<close>, \<open>name\<close>,
  \<open>response\<close>, \<open>content\<close>, \<open>text\<close>, \<open>choices\<close>, \<open>message\<close>): a \<open>TypeError\<close> on
  \<open>null\<close> and \<open>undefined\<close>, the member of an object, \<open>undefined\<close> on anything else.\<close>

definition get_prop :: "string \<Rightarrow> jsval \<Rightarrow> exn + jsval" where
  "get_prop name v =
     (case v of Undefined \<Rightarrow> Inl TypeError | JNull \<Rightarrow> Inl TypeError
      | JObj kvs \<Rightarrow> Inr (obj_lookup kvs name)
      | JBool _ \<Rightarrow> Inr Undefined | JNum _ \<Rightarrow> Inr Undefined | JStr _ \<Rightarrow> Inr Undefined
      | JArr _ \<Rightarrow> Inr Undefined)"

text \<open>\<open>v[0]\<close>.\<close>

definition index0 :: "jsval \<Rightarrow> exn + jsval" where
  "index0 v =
     (case v of Undefined \<Rightarrow> Inl TypeError | JNull \<Rightarrow> Inl TypeError
      | JArr xs \<Rightarrow> Inr (case xs of [] \<Rightarrow> Undefined | x # _ \<Rightarrow> x)
      | JStr s \<Rightarrow> Inr (case s of [] \<Rightarrow> Undefined | c # _ \<Rightarrow> JStr [c])
      | JObj kvs \<Rightarrow> Inr (obj_lookup kvs ''0'')
      | JBool _ \<Rightarrow> Inr Undefined | JNum _ \<Rightarrow> Inr Undefined)"

text \<open>\<open>v?.name\<close>.\<close>

definition opt_prop :: "string \<Rightarrow> jsval \<Rightarrow> exn + jsval" where
  "opt_prop name v = (if nullish v then Inr Undefined else get_prop name v)"

definition and_then :: "exn + 'a \<Rightarrow> ('a \<Rightarrow> exn + 'b) \<Rightarrow> exn + 'b" where
  "and_then r f = (case r of Inl e \<Rightarrow> Inl e | Inr x \<Rightarrow> f x)"

text \<open>\<open>extracted || userInput\<close>, then \<open>enhanced.substring(0, 200)\<close>, which is a
  \<open>TypeError\<close> on a truthy value that is no string.\<close>

definition or_userInput :: "jsval \<Rightarrow> string \<Rightarrow> exn + string" where
  "or_userInput v input =
     (if truthy v then (case v of JStr t \<Rightarrow> Inr t | _ \<Rightarrow> Inl TypeError) else Inr input)"

subsection \<open>The local backend\<close>

definition isOllamaRunning :: "env \<Rightarrow> string \<Rightarrow> state \<Rightarrow> bool \<times> state" where
  "isOllamaRunning e endpoint s =
     (case do_fetch e (GetTags endpoint) s of
        (Rejected, s') \<Rightarrow> (False, s')
      | (Response status body, s') \<Rightarrow> (ok status, s'))"

fun map_names :: "jsval list \<Rightarrow> exn + jsval list" where
  "map_names [] = Inr []"
| "map_names (m # ms) =
     and_then (get_prop ''name'' m) (\<lambda>n. and_then (map_names ms) (\<lambda>ns. Inr (n # ns)))"

text \<open>\<open>data.models?.map(m => m.name) || []\<close>.\<close>

definition model_names :: "jsval \<Rightarrow> exn + jsval list" where
  "model_names data =
     and_then (get_prop ''models'' data)
       (\<lambda>ms. if nullish ms then Inr []
             else (case ms of JArr xs \<Rightarrow> map_names xs | _ \<Rightarrow> Inl TypeError))"

definition getOllamaModels :: "env \<Rightarrow> string \<Rightarrow> state \<Rightarrow> jsval list \<times> state" where
  "getOllamaModels e endpoint s =
     (case do_fetch e (GetTags endpoint) s of
        (Rejected, s') \<Rightarrow> ([], s')
      | (Response status body, s') \<Rightarrow>
          if \<not> ok status then ([], s')
          else (case body of
                  NotJson \<Rightarrow> ([], s')
                | JsonBody data \<Rightarrow>
                    (case model_names data of Inl _ \<Rightarrow> ([], s') | Inr ns \<Rightarrow> (ns, s'))))"

definition AIEnhancer_clearCache :: "state \<Rightarrow> state" where
  "AIEnhancer_clearCache s = s\<lparr>ollamaAvailable := None, ollamaModels := []\<rparr>"

definition checkOllama :: "env \<Rightarrow> state \<Rightarrow> (bool \<times> jsval list) \<times> state" where
  "checkOllama e s =
     (let endpoint = config_get e ''ollamaEndpoint'' ''http://localhost:11434'';
          (running, s1) = isOllamaRunning e endpoint s;
          s2 = s1\<lparr>ollamaAvailable := Some running\<rparr>;
          s3 = (if running
                then (let (ms, s') = getOllamaModels e endpoint s2 in s'\<lparr>ollamaModels := ms\<rparr>)
                else s2)
      in ((running, ollamaModels s3), s3))"

subsection \<open>Results\<close>

definition ai_result :: "string \<Rightarrow> EnhancedPrompt" where
  "ai_result enhanced =
     \<lparr>prompt = enhanced, preview = substring_0_200 enhanced, wasAiEnhanced = True\<rparr>"

definition fallback_result :: "string \<Rightarrow> EnhancedPrompt" where
  "fallback_result fallback =
     \<lparr>prompt = fallback, preview = substring_0_200 fallback, wasAiEnhanced = False\<rparr>"

subsection \<open>The generation calls\<close>

definition trim :: "string \<Rightarrow> string" where
  "trim s = rev (dropWhile isWhiteSpace (rev (dropWhile isWhiteSpace s)))"

text \<open>\<open>.replace(/^(Enhanced prompt:|Here's the enhanced prompt:|Output:)\s*/i, '')\<close>.\<close>

definition strip_lead_in :: "string \<Rightarrow> string" where
  "strip_lead_in s =
     (if ci_prefix ''Enhanced prompt:'' s
      then dropWhile isWhiteSpace (drop (length ''Enhanced prompt:'') s)
      else if ci_prefix ''Here's the enhanced prompt:'' s
      then dropWhile isWhiteSpace (drop (length ''Here's the enhanced prompt:'') s)
      else if ci_prefix ''Output:'' s
      then dropWhile isWhiteSpace (drop (length ''Output:'') s)
      else s)"

definition isQuote :: "char \<Rightarrow> bool" where
  "isQuote c = (c = CHR 0x22 \<or> c = CHR 0x27)"

text \<open>\<open>.replace(/^["']|["']$/g, '')\<close>: a quote at the very start goes, and a quote at the very
  end that is not that same code unit goes.\<close>

definition strip_quotes :: "string \<Rightarrow> string" where
  "strip_quotes s =
     (let t = (case s of [] \<Rightarrow> [] | c # cs \<Rightarrow> if isQuote c then cs else c # cs)
      in if t \<noteq> [] \<and> isQuote (last t) then butlast t else t)"

text \<open>\<open>data.response?.trim() || userInput\<close>: calling \<open>trim\<close> on a value that is neither
  nullish nor a string is a \<open>TypeError\<close>.\<close>

definition ollama_extract :: "jsval \<Rightarrow> string \<Rightarrow> exn + string" where
  "ollama_extract data input =
     and_then (get_prop ''response'' data)
       (\<lambda>r. if nullish r then Inr input
            else (case r of
                    JStr t \<Rightarrow> Inr (if trim t \<noteq> [] then trim t else input)
                  | _ \<Rightarrow> Inl TypeError))"

definition callOllamaAPI :: "env \<Rightarrow> string \<Rightarrow> state \<Rightarrow> (exn + EnhancedPrompt) \<times> state" where
  "callOllamaAPI e input s =
     (let endpoint = config_get e ''ollamaEndpoint'' ''http://localhost:11434'';
          model = config_get e ''ollamaModel'' ''llama3.2''
      in case do_fetch e (PostGenerate endpoint model input) s of
           (Rejected, s') \<Rightarrow> (Inl FetchFailed, s')
         | (Response status body, s') \<Rightarrow>
             if \<not> ok status then (Inl (ApiError ''Ollama'' status), s')
             else (case body of
                     NotJson \<Rightarrow> (Inl SyntaxError, s')
                   | JsonBody data \<Rightarrow>
                       (case ollama_extract data input of
                          Inl x \<Rightarrow> (Inl x, s')
                        | Inr enhanced \<Rightarrow>
                            (Inr (ai_result (trim (strip_quotes (strip_lead_in enhanced)))), s'))))"

text \<open>\<open>data.content[0]?.text || userInput\<close>.\<close>

definition anthropic_extract :: "jsval \<Rightarrow> string \<Rightarrow> exn + string" where
  "anthropic_extract data input =
     and_then (and_then (and_then (get_prop ''content'' data) index0) (opt_prop ''text''))
       (\<lambda>v. or_userInput v input)"

definition callAnthropicAPI ::
  "env \<Rightarrow> string \<Rightarrow> string \<Rightarrow> state \<Rightarrow> (exn + EnhancedPrompt) \<times> state" where
  "callAnthropicAPI e input apiKey s =
     (case do_fetch e (PostAnthropic apiKey input) s of
        (Rejected, s') \<Rightarrow> (Inl FetchFailed, s')
      | (Response status body, s') \<Rightarrow>
          if \<not> ok status then (Inl (ApiError ''Anthropic'' status), s')
          else (case body of
                  NotJson \<Rightarrow> (Inl SyntaxError, s')
                | JsonBody data \<Rightarrow>
                    (case anthropic_extract data input of
                       Inl x \<Rightarrow> (Inl x, s')
                     | Inr enhanced \<Rightarrow> (Inr (ai_result enhanced), s'))))"

text \<open>\<open>data.choices[0]?.message?.content || userInput\<close>.\<close>

definition openai_extract :: "jsval \<Rightarrow> string \<Rightarrow> exn + string" where
  "openai_extract data input =
     and_then
       (and_then (and_then (and_then (get_prop ''choices'' data) index0) (opt_prop ''message''))
          (opt_prop ''content''))
       (\<lambda>v. or_userInput v input)"

definition callOpenAIAPI ::
  "env \<Rightarrow> string \<Rightarrow> string \<Rightarrow> state \<Rightarrow> (exn + EnhancedPrompt) \<times> state" where
  "callOpenAIAPI e input apiKey s =
     (case do_fetch e (PostOpenAI apiKey input) s of
        (Rejected, s') \<Rightarrow> (Inl FetchFailed, s')
      | (Response status body, s') \<Rightarrow>
          if \<not> ok status then (Inl (ApiError ''OpenAI'' status), s')
          else (case body of
                  NotJson \<Rightarrow> (Inl SyntaxError, s')
                | JsonBody data \<Rightarrow>
                    (case openai_extract data input of
                       Inl x \<Rightarrow> (Inl x, s')
                     | Inr enhanced \<Rightarrow> (Inr (ai_result enhanced), s'))))"

subsection \<open>The manual provider\<close>

text \<open>The inner \<open>try\<close> covers the two remote calls and the unknown provider; the call of the
  local backend stands before it and may raise.\<close>

definition enhanceWithManualAPI ::
  "env \<Rightarrow> string \<Rightarrow> string \<Rightarrow> state \<Rightarrow> (exn + EnhancedPrompt) \<times> state" where
  "enhanceWithManualAPI e input fallback s =
     (let manualProvider = config_get e ''manualProvider'' ''ollama''
      in if manualProvider = ''ollama'' then callOllamaAPI e input s
         else (let apiKey = config_get e ''apiKey'' ''''
               in if apiKey = [] then (Inr (fallback_result fallback), s)
                  else (case (if manualProvider = ''anthropic''
                              then callAnthropicAPI e input apiKey s
                              else if manualProvider = ''openai''
                              then callOpenAIAPI e input apiKey s
                              else (Inl (UnknownProvider manualProvider), s)) of
                          (Inl x, s') \<Rightarrow> (Inr (fallback_result fallback), s')
                        | (Inr r, s') \<Rightarrow> (Inr r, s'))))"

definition enhanceWithProvider ::
  "env \<Rightarrow> LLMProvider \<Rightarrow> string \<Rightarrow> string \<Rightarrow> state \<Rightarrow> (exn + EnhancedPrompt) \<times> state" where
  "enhanceWithProvider e p input fallback s =
     (case p of
        Cursor \<Rightarrow> enhanceWithManualAPI e input fallback s
      | ClaudeCode \<Rightarrow> enhanceWithManualAPI e input fallback s
      | Continue \<Rightarrow> enhanceWithManualAPI e input fallback s
      | Cody \<Rightarrow> enhanceWithManualAPI e input fallback s
      | Copilot \<Rightarrow> (Inr (fallback_result fallback), s)
      | Manual \<Rightarrow> (Inr (fallback_result fallback), s)
      | NoProvider \<Rightarrow> (Inr (fallback_result fallback), s))"

subsection \<open>Detection of the coding assistant\<close>

definition CACHE_DURATION :: int where
  "CACHE_DURATION = 60000"

definition isCursorEditor :: "env \<Rightarrow> state \<Rightarrow> bool \<times> state" where
  "isCursorEditor e s =
     (let name = (case appName e of None \<Rightarrow> [] | Some a \<Rightarrow> toLowerCase a)
      in (str_includes name ''cursor'', s\<lparr>calls := calls s @ [AppName]\<rparr>))"

definition isClaudeCodeInstalled :: "env \<Rightarrow> state \<Rightarrow> bool \<times> state" where
  "isClaudeCodeInstalled e s =
     (case do_exec e ''claude --version'' s of
        (True, s1) \<Rightarrow> (True, s1)
      | (False, s1) \<Rightarrow> do_exec e ''claude-code --version'' s1)"

definition isCopilotInstalled :: "env \<Rightarrow> state \<Rightarrow> bool \<times> state" where
  "isCopilotInstalled e s =
     (case do_getExtension e ''GitHub.copilot'' s of
        (copilotExtension, s1) \<Rightarrow>
          (case do_getExtension e ''GitHub.copilot-chat'' s1 of
             (copilotChat, s2) \<Rightarrow> (copilotExtension \<or> copilotChat, s2)))"

definition isContinueInstalled :: "env \<Rightarrow> state \<Rightarrow> bool \<times> state" where
  "isContinueInstalled e s = do_getExtension e ''Continue.continue'' s"

definition isCodyInstalled :: "env \<Rightarrow> state \<Rightarrow> bool \<times> state" where
  "isCodyInstalled e s = do_getExtension e ''sourcegraph.cody-ai'' s"

definition detection ::
  "LLMProvider \<Rightarrow> bool \<Rightarrow> bool \<Rightarrow> string \<Rightarrow> LLMDetectionResult" where
  "detection p a c n = \<lparr>provider = p, available = a, canEnhance = c, displayName = n\<rparr>"

text \<open>The chain of probes, in the priority order of the source.\<close>

definition run_probes :: "env \<Rightarrow> state \<Rightarrow> LLMDetectionResult \<times> state" where
  "run_probes e s =
     (case isCursorEditor e s of
        (True, s1) \<Rightarrow> (detection Cursor True True ''Cursor'', s1)
      | (False, s1) \<Rightarrow>
     (case isClaudeCodeInstalled e s1 of
        (True, s2) \<Rightarrow> (detection ClaudeCode True True ''Claude Code'', s2)
      | (False, s2) \<Rightarrow>
     (case isContinueInstalled e s2 of
        (True, s3) \<Rightarrow> (detection Continue True True ''Continue.dev'', s3)
      | (False, s3) \<Rightarrow>
     (case isCodyInstalled e s3 of
        (True, s4) \<Rightarrow> (detection Cody True True ''Sourcegraph Cody'', s4)
      | (False, s4) \<Rightarrow>
     (case isCopilotInstalled e s4 of
        (True, s5) \<Rightarrow> (detection Copilot True False ''GitHub Copilot'', s5)
      | (False, s5) \<Rightarrow> (detection NoProvider False False ''None detected'', s5))))))"

text \<open>\<open>detect(forceRefresh)\<close>; \<open>now\<close> is what \<open>Date.now()\<close> reads at the call.\<close>

definition LLMDetector_detect ::
  "env \<Rightarrow> bool \<Rightarrow> int \<Rightarrow> state \<Rightarrow> LLMDetectionResult \<times> state" where
  "LLMDetector_detect e forceRefresh now s =
     (case (if \<not> forceRefresh \<and> now - lastCheck s < CACHE_DURATION then cachedResult s
            else None) of
        Some cached \<Rightarrow> (cached, s)
      | None \<Rightarrow>
          (case run_probes e s of
             (result, s') \<Rightarrow> (result, s'\<lparr>cachedResult := Some result, lastCheck := now\<rparr>)))"

definition LLMDetector_clearCache :: "state \<Rightarrow> state" where
  "LLMDetector_clearCache s = s\<lparr>cachedResult := None, lastCheck := 0\<rparr>"

subsection \<open>The orchestrator\<close>

text \<open>The body of the outer \<open>try\<close>: it returns a result, raises, or falls through
  (\<open>None\<close>).\<close>

definition try_ai ::
  "env \<Rightarrow> string \<Rightarrow> string \<Rightarrow> string \<Rightarrow> int \<Rightarrow> state
     \<Rightarrow> (exn + EnhancedPrompt option) \<times> state" where
  "try_ai e mode input ruleEnhancedPrompt now s =
     (if mode = ''auto''
      then (case checkOllama e s of
              ((running, models), s1) \<Rightarrow>
                if running \<and> length models > 0
                then (case callOllamaAPI e input s1 of (r, s2) \<Rightarrow> (map_sum id Some r, s2))
                else (case LLMDetector_detect e False now s1 of
                        (found, s2) \<Rightarrow>
                          if canEnhance found
                          then (case enhanceWithProvider e (provider found) input
                                       ruleEnhancedPrompt s2 of
                                  (r, s3) \<Rightarrow> (map_sum id Some r, s3))
                          else (Inr None, s2)))
      else if mode = ''manual''
      then (case enhanceWithManualAPI e input ruleEnhancedPrompt s of
              (r, s1) \<Rightarrow> (map_sum id Some r, s1))
      else (Inr None, s))"

text \<open>\<open>AIEnhancer.enhance\<close>: the \<open>catch\<close> of the outer \<open>try\<close> logs and goes on to the
  fallback.\<close>

definition AIEnhancer_enhance ::
  "env \<Rightarrow> string \<Rightarrow> string \<Rightarrow> int \<Rightarrow> state \<Rightarrow> (exn + EnhancedPrompt) \<times> state" where
  "AIEnhancer_enhance e input ruleEnhancedPrompt now s =
     (let mode = config_get e ''enhancementMode'' ''auto''
      in if mode = ''ruleOnly'' then (Inr (fallback_result ruleEnhancedPrompt), s)
         else (case try_ai e mode input ruleEnhancedPrompt now s of
                 (Inr (Some r), s') \<Rightarrow> (Inr r, s')
               | (Inr None, s') \<Rightarrow> (Inr (fallback_result ruleEnhancedPrompt), s')
               | (Inl x, s') \<Rightarrow> (Inr (fallback_result ruleEnhancedPrompt), s')))"

text \<open>A generation call fails: the transport raises, the status is not 2xx, or the body
  is not JSON.\<close>

definition failing :: "fetch_result \<Rightarrow> bool" where
  "failing r = (case r of Rejected \<Rightarrow> True | Response status body \<Rightarrow> \<not> ok status \<or> body = NotJson)"

definition is_generation :: "request \<Rightarrow> bool" where
  "is_generation req = (case req of GetTags _ \<Rightarrow> False | _ \<Rightarrow> True)"

text \<open>Every generation call fails, whenever it is issued.\<close>

definition generation_fails :: "env \<Rightarrow> bool" where
  "generation_fails e = (\<forall>n req. is_generation req \<longrightarrow> failing (fetch e n req))"

subsection \<open>Concrete environments\<close>

text \<open>The fields of both singletons as the constructors leave them, and no call made yet.\<close>

definition initial_state :: state where
  "initial_state =
     \<lparr>ollamaAvailable = None, ollamaModels = [], cachedResult = None, lastCheck = 0, calls = []\<rparr>"

text \<open>A healthy answer of the local backend to any request.\<close>

definition healthy_body :: jsval where
  "healthy_body =
     JObj [(''models'', JArr [JObj [(''name'', JStr ''llama3.2'')]]),
           (''response'', JStr ''Fix the button.'')]"

text \<open>Default configuration (mode \<open>auto\<close>); every request is answered with status 500.\<close>

definition env_server_error :: env where
  "env_server_error =
     \<lparr>config = Map.empty, fetch = (\<lambda>n req. Response 500 (JsonBody JNull)),
      exec = (\<lambda>n cmd. False), getExtension = (\<lambda>n ext. False), appName = Some ''Cursor''\<rparr>"

text \<open>Mode \<open>manual\<close> with provider \<open>anthropic\<close> and no API key; the network is healthy.\<close>

definition env_no_key :: env where
  "env_no_key =
     \<lparr>config = [''enhancementMode'' \<mapsto> ''manual'', ''manualProvider'' \<mapsto> ''anthropic''],
      fetch = (\<lambda>n req. Response 200 (JsonBody healthy_body)),
      exec = (\<lambda>n cmd. False), getExtension = (\<lambda>n ext. False), appName = None\<rparr>"

text \<open>Mode \<open>manual\<close> with a provider identifier the dispatch does not know.\<close>

definition env_unknown_provider :: env where
  "env_unknown_provider =
     \<lparr>config = [''enhancementMode'' \<mapsto> ''manual'', ''manualProvider'' \<mapsto> ''gemini'',
                ''apiKey'' \<mapsto> ''secret''],
      fetch = (\<lambda>n req. Response 200 (JsonBody healthy_body)),
      exec = (\<lambda>n cmd. False), getExtension = (\<lambda>n ext. False), appName = None\<rparr>"

text \<open>Mode \<open>ruleOnly\<close>; the network is healthy.\<close>

definition env_rule_only :: env where
  "env_rule_only =
     \<lparr>config = [''enhancementMode'' \<mapsto> ''ruleOnly''],
      fetch = (\<lambda>n req. Response 200 (JsonBody healthy_body)),
      exec = (\<lambda>n cmd. False), getExtension = (\<lambda>n ext. False), appName = None\<rparr>"

subsection \<open>Concrete requests\<close>

definition no_context :: PromptContext where
  "no_context =
     \<lparr>fileName = None, filePath = None, language = None, selectedCode = None,
      projectStructure = None, gitStatus = None, relatedFiles = None\<rparr>"

definition include_nothing :: IncludeContext where
  "include_nothing =
     \<lparr>inc_file = False, inc_selection = False, inc_project = False, inc_git = False\<rparr>"

text \<open>The example of the specification: intent \<open>fix\<close>, no context flag set.\<close>

definition request_button :: PromptRequest where
  "request_button =
     \<lparr>intent = IFix, userInput = ''button not work when click'', req_context = no_context,
      includeContext = include_nothing\<rparr>"

text \<open>Default configuration; the local backend answers the first two requests and is
  unreachable afterwards. No coding assistant is installed.\<close>

definition env_flaky :: env where
  "env_flaky =
     \<lparr>config = Map.empty,
      fetch = (\<lambda>n req. if n < 2 then Response 200 (JsonBody healthy_body) else Rejected),
      exec = (\<lambda>n cmd. False), getExtension = (\<lambda>n ext. False), appName = None\<rparr>"

text \<open>A one-letter request for a new feature, no context.\<close>

definition request_add_x :: PromptRequest where
  "request_add_x =
     \<lparr>intent = IAdd, userInput = ''x'', req_context = no_context,
      includeContext = include_nothing\<rparr>"

text \<open>A request to explain selected code that holds the replacement pattern \<open>$&\<close>.\<close>

definition request_dollar :: PromptRequest where
  "request_dollar =
     \<lparr>intent = IExplain, userInput = ''explain'',
      req_context = no_context\<lparr>selectedCode := Some ''s.replace(re, '$&')''\<rparr>,
      includeContext = include_nothing\<lparr>inc_selection := True\<rparr>\<rparr>"

text \<open>A request whose selected code holds the text \<open>{issue}\<close>, and one whose description is
  the text \<open>{error}\<close>.\<close>

definition request_token_in_code :: PromptRequest where
  "request_token_in_code =
     \<lparr>intent = IExplain, userInput = ''explain'',
      req_context = no_context\<lparr>selectedCode := Some ''log('{issue}')''\<rparr>,
      includeContext = include_nothing\<lparr>inc_selection := True\<rparr>\<rparr>"



section \<open>Theorems\<close>

subsection \<open>Evaluation tables for the code units of the examples\<close>

lemmas char_defs = code_def isAsciiLetter_def isWordChar_def isWhiteSpace_def
  isLineTerminator_def canonicalize_def toLowerCase_char_def toUpperCase_char_def char_of_eq_iff

lemma isWordChar_table:
  "isWordChar (CHR '' '') = False"
  "isWordChar (CHR ''$'') = False"
  "isWordChar (CHR 0x27) = False"
  "isWordChar (CHR ''.'') = False"
  "isWordChar (CHR ''0'') = True"
  "isWordChar (CHR ''1'') = True"
  "isWordChar (CHR ''2'') = True"
  "isWordChar (CHR ''3'') = True"
  "isWordChar (CHR ''4'') = True"
  "isWordChar (CHR ''5'') = True"
  "isWordChar (CHR ''6'') = True"
  "isWordChar (CHR ''7'') = True"
  "isWordChar (CHR ''8'') = True"
  "isWordChar (CHR ''9'') = True"
  "isWordChar (CHR ''A'') = True"
  "isWordChar (CHR ''B'') = True"
  "isWordChar (CHR ''C'') = True"
  "isWordChar (CHR ''D'') = True"
  "isWordChar (CHR ''E'') = True"
  "isWordChar (CHR ''F'') = True"
  "isWordChar (CHR ''G'') = True"
  "isWordChar (CHR ''H'') = True"
  "isWordChar (CHR ''I'') = True"
  "isWordChar (CHR ''J'') = True"
  "isWordChar (CHR ''K'') = True"
  "isWordChar (CHR ''L'') = True"
  "isWordChar (CHR ''M'') = True"
  "isWordChar (CHR ''N'') = True"
  "isWordChar (CHR ''O'') = True"
  "isWordChar (CHR ''P'') = True"
  "isWordChar (CHR ''Q'') = True"
  "isWordChar (CHR ''R'') = True"
  "isWordChar (CHR ''S'') = True"
  "isWordChar (CHR ''T'') = True"
  "isWordChar (CHR ''U'') = True"
  "isWordChar (CHR ''V'') = True"
  "isWordChar (CHR ''W'') = True"
  "isWordChar (CHR ''X'') = True"
  "isWordChar (CHR ''Y'') = True"
  "isWordChar (CHR ''Z'') = True"
  "isWordChar (CHR ''a'') = True"
  "isWordChar (CHR ''b'') = True"
  "isWordChar (CHR ''c'') = True"
  "isWordChar (CHR ''d'') = True"
  "isWordChar (CHR ''e'') = True"
  "isWordChar (CHR ''f'') = True"
  "isWordChar (CHR ''g'') = True"
  "isWordChar (CHR ''h'') = True"
  "isWordChar (CHR ''i'') = True"
  "isWordChar (CHR ''j'') = True"
  "isWordChar (CHR ''k'') = True"
  "isWordChar (CHR ''l'') = True"
  "isWordChar (CHR ''m'') = True"
  "isWordChar (CHR ''n'') = True"
  "isWordChar (CHR ''o'') = True"
  "isWordChar (CHR ''p'') = True"
  "isWordChar (CHR ''q'') = True"
  "isWordChar (CHR ''r'') = True"
  "isWordChar (CHR ''s'') = True"
  "isWordChar (CHR ''t'') = True"
  "isWordChar (CHR ''u'') = True"
  "isWordChar (CHR ''v'') = True"
  "isWordChar (CHR ''w'') = True"
  "isWordChar (CHR ''x'') = True"
  "isWordChar (CHR ''y'') = True"
  "isWordChar (CHR ''z'') = True"
  "isWordChar (CHR ''{'') = False"
  "isWordChar (CHR ''}'') = False"
  by (simp_all add: char_defs)

lemma isWhiteSpace_table:
  "isWhiteSpace (CHR '' '') = True"
  "isWhiteSpace (CHR ''$'') = False"
  "isWhiteSpace (CHR 0x27) = False"
  "isWhiteSpace (CHR ''.'') = False"
  "isWhiteSpace (CHR ''0'') = False"
  "isWhiteSpace (CHR ''1'') = False"
  "isWhiteSpace (CHR ''2'') = False"
  "isWhiteSpace (CHR ''3'') = False"
  "isWhiteSpace (CHR ''4'') = False"
  "isWhiteSpace (CHR ''5'') = False"
  "isWhiteSpace (CHR ''6'') = False"
  "isWhiteSpace (CHR ''7'') = False"
  "isWhiteSpace (CHR ''8'') = False"
  "isWhiteSpace (CHR ''9'') = False"
  "isWhiteSpace (CHR ''A'') = False"
  "isWhiteSpace (CHR ''B'') = False"
  "isWhiteSpace (CHR ''C'') = False"
  "isWhiteSpace (CHR ''D'') = False"
  "isWhiteSpace (CHR ''E'') = False"
  "isWhiteSpace (CHR ''F'') = False"
  "isWhiteSpace (CHR ''G'') = False"
  "isWhiteSpace (CHR ''H'') = False"
  "isWhiteSpace (CHR ''I'') = False"
  "isWhiteSpace (CHR ''J'') = False"
  "isWhiteSpace (CHR ''K'') = False"
  "isWhiteSpace (CHR ''L'') = False"
  "isWhiteSpace (CHR ''M'') = False"
  "isWhiteSpace (CHR ''N'') = False"
  "isWhiteSpace (CHR ''O'') = False"
  "isWhiteSpace (CHR ''P'') = False"
  "isWhiteSpace (CHR ''Q'') = False"
  "isWhiteSpace (CHR ''R'') = False"
  "isWhiteSpace (CHR ''S'') = False"
  "isWhiteSpace (CHR ''T'') = False"
  "isWhiteSpace (CHR ''U'') = False"
  "isWhiteSpace (CHR ''V'') = False"
  "isWhiteSpace (CHR ''W'') = False"
  "isWhiteSpace (CHR ''X'') = False"
  "isWhiteSpace (CHR ''Y'') = False"
  "isWhiteSpace (CHR ''Z'') = False"
  "isWhiteSpace (CHR ''a'') = False"
  "isWhiteSpace (CHR ''b'') = False"
  "isWhiteSpace (CHR ''c'') = False"
  "isWhiteSpace (CHR ''d'') = False"
  "isWhiteSpace (CHR ''e'') = False"
  "isWhiteSpace (CHR ''f'') = False"
  "isWhiteSpace (CHR ''g'') = False"
  "isWhiteSpace (CHR ''h'') = False"
  "isWhiteSpace (CHR ''i'') = False"
  "isWhiteSpace (CHR ''j'') = False"
  "isWhiteSpace (CHR ''k'') = False"
  "isWhiteSpace (CHR ''l'') = False"
  "isWhiteSpace (CHR ''m'') = False"
  "isWhiteSpace (CHR ''n'') = False"
  "isWhiteSpace (CHR ''o'') = False"
  "isWhiteSpace (CHR ''p'') = False"
  "isWhiteSpace (CHR ''q'') = False"
  "isWhiteSpace (CHR ''r'') = False"
  "isWhiteSpace (CHR ''s'') = False"
  "isWhiteSpace (CHR ''t'') = False"
  "isWhiteSpace (CHR ''u'') = False"
  "isWhiteSpace (CHR ''v'') = False"
  "isWhiteSpace (CHR ''w'') = False"
  "isWhiteSpace (CHR ''x'') = False"
  "isWhiteSpace (CHR ''y'') = False"
  "isWhiteSpace (CHR ''z'') = False"
  "isWhiteSpace (CHR ''{'') = False"
  "isWhiteSpace (CHR ''}'') = False"
  by (simp_all add: char_defs)

lemma canonicalize_table:
  "canonicalize (CHR '' '') = CHR '' ''"
  "canonicalize (CHR ''$'') = CHR ''$''"
  "canonicalize (CHR 0x27) = CHR 0x27"
  "canonicalize (CHR ''.'') = CHR ''.''"
  "canonicalize (CHR ''0'') = CHR ''0''"
  "canonicalize (CHR ''1'') = CHR ''1''"
  "canonicalize (CHR ''2'') = CHR ''2''"
  "canonicalize (CHR ''3'') = CHR ''3''"
  "canonicalize (CHR ''4'') = CHR ''4''"
  "canonicalize (CHR ''5'') = CHR ''5''"
  "canonicalize (CHR ''6'') = CHR ''6''"
  "canonicalize (CHR ''7'') = CHR ''7''"
  "canonicalize (CHR ''8'') = CHR ''8''"
  "canonicalize (CHR ''9'') = CHR ''9''"
  "canonicalize (CHR ''A'') = CHR ''A''"
  "canonicalize (CHR ''B'') = CHR ''B''"
  "canonicalize (CHR ''C'') = CHR ''C''"
  "canonicalize (CHR ''D'') = CHR ''D''"
  "canonicalize (CHR ''E'') = CHR ''E''"
  "canonicalize (CHR ''F'') = CHR ''F''"
  "canonicalize (CHR ''G'') = CHR ''G''"
  "canonicalize (CHR ''H'') = CHR ''H''"
  "canonicalize (CHR ''I'') = CHR ''I''"
  "canonicalize (CHR ''J'') = CHR ''J''"
  "canonicalize (CHR ''K'') = CHR ''K''"
  "canonicalize (CHR ''L'') = CHR ''L''"
  "canonicalize (CHR ''M'') = CHR ''M''"
  "canonicalize (CHR ''N'') = CHR ''N''"
  "canonicalize (CHR ''O'') = CHR ''O''"
  "canonicalize (CHR ''P'') = CHR ''P''"
  "canonicalize (CHR ''Q'') = CHR ''Q''"
  "canonicalize (CHR ''R'') = CHR ''R''"
  "canonicalize (CHR ''S'') = CHR ''S''"
  "canonicalize (CHR ''T'') = CHR ''T''"
  "canonicalize (CHR ''U'') = CHR ''U''"
  "canonicalize (CHR ''V'') = CHR ''V''"
  "canonicalize (CHR ''W'') = CHR ''W''"
  "canonicalize (CHR ''X'') = CHR ''X''"
  "canonicalize (CHR ''Y'') = CHR ''Y''"
  "canonicalize (CHR ''Z'') = CHR ''Z''"
  "canonicalize (CHR ''a'') = CHR ''A''"
  "canonicalize (CHR ''b'') = CHR ''B''"
  "canonicalize (CHR ''c'') = CHR ''C''"
  "canonicalize (CHR ''d'') = CHR ''D''"
  "canonicalize (CHR ''e'') = CHR ''E''"
  "canonicalize (CHR ''f'') = CHR ''F''"
  "canonicalize (CHR ''g'') = CHR ''G''"
  "canonicalize (CHR ''h'') = CHR ''H''"
  "canonicalize (CHR ''i'') = CHR ''I''"
  "canonicalize (CHR ''j'') = CHR ''J''"
  "canonicalize (CHR ''k'') = CHR ''K''"
  "canonicalize (CHR ''l'') = CHR ''L''"
  "canonicalize (CHR ''m'') = CHR ''M''"
  "canonicalize (CHR ''n'') = CHR ''N''"
  "canonicalize (CHR ''o'') = CHR ''O''"
  "canonicalize (CHR ''p'') = CHR ''P''"
  "canonicalize (CHR ''q'') = CHR ''Q''"
  "canonicalize (CHR ''r'') = CHR ''R''"
  "canonicalize (CHR ''s'') = CHR ''S''"
  "canonicalize (CHR ''t'') = CHR ''T''"
  "canonicalize (CHR ''u'') = CHR ''U''"
  "canonicalize (CHR ''v'') = CHR ''V''"
  "canonicalize (CHR ''w'') = CHR ''W''"
  "canonicalize (CHR ''x'') = CHR ''X''"
  "canonicalize (CHR ''y'') = CHR ''Y''"
  "canonicalize (CHR ''z'') = CHR ''Z''"
  "canonicalize (CHR ''{'') = CHR ''{''"
  "canonicalize (CHR ''}'') = CHR ''}''"
  by (simp_all add: char_defs)

lemma toLowerCase_char_table:
  "toLowerCase_char (CHR '' '') = CHR '' ''"
  "toLowerCase_char (CHR ''$'') = CHR ''$''"
  "toLowerCase_char (CHR 0x27) = CHR 0x27"
  "toLowerCase_char (CHR ''.'') = CHR ''.''"
  "toLowerCase_char (CHR ''0'') = CHR ''0''"
  "toLowerCase_char (CHR ''1'') = CHR ''1''"
  "toLowerCase_char (CHR ''2'') = CHR ''2''"
  "toLowerCase_char (CHR ''3'') = CHR ''3''"
  "toLowerCase_char (CHR ''4'') = CHR ''4''"
  "toLowerCase_char (CHR ''5'') = CHR ''5''"
  "toLowerCase_char (CHR ''6'') = CHR ''6''"
  "toLowerCase_char (CHR ''7'') = CHR ''7''"
  "toLowerCase_char (CHR ''8'') = CHR ''8''"
  "toLowerCase_char (CHR ''9'') = CHR ''9''"
  "toLowerCase_char (CHR ''A'') = CHR ''a''"
  "toLowerCase_char (CHR ''B'') = CHR ''b''"
  "toLowerCase_char (CHR ''C'') = CHR ''c''"
  "toLowerCase_char (CHR ''D'') = CHR ''d''"
  "toLowerCase_char (CHR ''E'') = CHR ''e''"
  "toLowerCase_char (CHR ''F'') = CHR ''f''"
  "toLowerCase_char (CHR ''G'') = CHR ''g''"
  "toLowerCase_char (CHR ''H'') = CHR ''h''"
  "toLowerCase_char (CHR ''I'') = CHR ''i''"
  "toLowerCase_char (CHR ''J'') = CHR ''j''"
  "toLowerCase_char (CHR ''K'') = CHR ''k''"
  "toLowerCase_char (CHR ''L'') = CHR ''l''"
  "toLowerCase_char (CHR ''M'') = CHR ''m''"
  "toLowerCase_char (CHR ''N'') = CHR ''n''"
  "toLowerCase_char (CHR ''O'') = CHR ''o''"
  "toLowerCase_char (CHR ''P'') = CHR ''p''"
  "toLowerCase_char (CHR ''Q'') = CHR ''q''"
  "toLowerCase_char (CHR ''R'') = CHR ''r''"
  "toLowerCase_char (CHR ''S'') = CHR ''s''"
  "toLowerCase_char (CHR ''T'') = CHR ''t''"
  "toLowerCase_char (CHR ''U'') = CHR ''u''"
  "toLowerCase_char (CHR ''V'') = CHR ''v''"
  "toLowerCase_char (CHR ''W'') = CHR ''w''"
  "toLowerCase_char (CHR ''X'') = CHR ''x''"
  "toLowerCase_char (CHR ''Y'') = CHR ''y''"
  "toLowerCase_char (CHR ''Z'') = CHR ''z''"
  "toLowerCase_char (CHR ''a'') = CHR ''a''"
  "toLowerCase_char (CHR ''b'') = CHR ''b''"
  "toLowerCase_char (CHR ''c'') = CHR ''c''"
  "toLowerCase_char (CHR ''d'') = CHR ''d''"
  "toLowerCase_char (CHR ''e'') = CHR ''e''"
  "toLowerCase_char (CHR ''f'') = CHR ''f''"
  "toLowerCase_char (CHR ''g'') = CHR ''g''"
  "toLowerCase_char (CHR ''h'') = CHR ''h''"
  "toLowerCase_char (CHR ''i'') = CHR ''i''"
  "toLowerCase_char (CHR ''j'') = CHR ''j''"
  "toLowerCase_char (CHR ''k'') = CHR ''k''"
  "toLowerCase_char (CHR ''l'') = CHR ''l''"
  "toLowerCase_char (CHR ''m'') = CHR ''m''"
  "toLowerCase_char (CHR ''n'') = CHR ''n''"
  "toLowerCase_char (CHR ''o'') = CHR ''o''"
  "toLowerCase_char (CHR ''p'') = CHR ''p''"
  "toLowerCase_char (CHR ''q'') = CHR ''q''"
  "toLowerCase_char (CHR ''r'') = CHR ''r''"
  "toLowerCase_char (CHR ''s'') = CHR ''s''"
  "toLowerCase_char (CHR ''t'') = CHR ''t''"
  "toLowerCase_char (CHR ''u'') = CHR ''u''"
  "toLowerCase_char (CHR ''v'') = CHR ''v''"
  "toLowerCase_char (CHR ''w'') = CHR ''w''"
  "toLowerCase_char (CHR ''x'') = CHR ''x''"
  "toLowerCase_char (CHR ''y'') = CHR ''y''"
  "toLowerCase_char (CHR ''z'') = CHR ''z''"
  "toLowerCase_char (CHR ''{'') = CHR ''{''"
  "toLowerCase_char (CHR ''}'') = CHR ''}''"
  by (simp_all add: char_defs)

lemmas char_tables = isWordChar_table isWhiteSpace_table canonicalize_table
  toLowerCase_char_table

declare isWordChar_table [code] isWhiteSpace_table [code] canonicalize_table [code]
  toLowerCase_char_table [code]



subsection \<open>Intent detection\<close>

lemma includes_iff_sublist: "str_includes s kw \<longleftrightarrow> sublist kw s"
  by (induction s) (auto simp: sublist_Cons_right)

lemma keyword_score_fold:
  "fold (\<lambda>keyword score. if str_includes l keyword then score + length keyword else score) ks a
   = a + sum_list (map length (filter (\<lambda>k. sublist k l) ks))"
  by (induction ks arbitrary: a) (auto simp: includes_iff_sublist)

lemma keyword_score_eq:
  "keyword_score l ks = sum_list (map length (filter (\<lambda>k. sublist k l) ks))"
  by (simp add: keyword_score_def keyword_score_fold)


lemma fold_step_mono:
  "snd b \<le> snd (fold (detectIntent_step l) es b)"
proof (induction es arbitrary: b)
  case Nil show ?case by simp
next
  case (Cons e es)
  have "snd b \<le> snd (detectIntent_step l e b)"
    by (simp add: detectIntent_step_def Let_def)
  also have "\<dots> \<le> snd (fold (detectIntent_step l) es (detectIntent_step l e b))"
    by (rule Cons.IH)
  finally show ?case by simp
qed

lemma fold_step_upper:
  "n < length es \<Longrightarrow> keyword_score l (snd (es ! n)) \<le> snd (fold (detectIntent_step l) es b)"
proof (induction es arbitrary: b n)
  case Nil then show ?case by simp
next
  case (Cons e es)
  show ?case
  proof (cases n)
    case 0
    have "keyword_score l (snd e) \<le> snd (detectIntent_step l e b)"
      by (simp add: detectIntent_step_def Let_def)
    also have "\<dots> \<le> snd (fold (detectIntent_step l) es (detectIntent_step l e b))"
      by (rule fold_step_mono)
    finally show ?thesis using 0 by simp
  next
    case (Suc m)
    then show ?thesis using Cons.prems Cons.IH[of m] by simp
  qed
qed

lemma fold_step_first:
  "fold (detectIntent_step l) es b = b \<or>
   (\<exists>n < length es. fold (detectIntent_step l) es b
        = (fst (es ! n), keyword_score l (snd (es ! n)))
      \<and> snd b < keyword_score l (snd (es ! n))
      \<and> (\<forall>m < n. keyword_score l (snd (es ! m)) < keyword_score l (snd (es ! n))))"
proof (induction es arbitrary: b)
  case Nil show ?case by simp
next
  case (Cons e es)
  let ?b1 = "detectIntent_step l e b"
  let ?r = "fold (detectIntent_step l) es ?b1"
  have b1: "?b1 = b \<and> keyword_score l (snd e) \<le> snd b
     \<or> ?b1 = (fst e, keyword_score l (snd e)) \<and> snd b < keyword_score l (snd e)"
    by (auto simp: detectIntent_step_def Let_def)
  have mono: "snd b \<le> snd ?b1" 
    by (simp add: detectIntent_step_def Let_def)
  from Cons.IH[of ?b1] consider
    (same) "?r = ?b1"
    | (later) n where "n < length es" "?r = (fst (es ! n), keyword_score l (snd (es ! n)))"
       "snd ?b1 < keyword_score l (snd (es ! n))"
       "\<forall>m < n. keyword_score l (snd (es ! m)) < keyword_score l (snd (es ! n))"
    by blast
  then show ?case
  proof cases
    case same
    from b1 show ?thesis
    proof
      assume "?b1 = b \<and> keyword_score l (snd e) \<le> snd b"
      with same show ?thesis by simp
    next
      assume a: "?b1 = (fst e, keyword_score l (snd e)) \<and> snd b < keyword_score l (snd e)"
      have "\<exists>n<length (e # es). fold (detectIntent_step l) (e # es) b
          = (fst ((e # es) ! n), keyword_score l (snd ((e # es) ! n)))
        \<and> snd b < keyword_score l (snd ((e # es) ! n))
        \<and> (\<forall>m<n. keyword_score l (snd ((e # es) ! m)) < keyword_score l (snd ((e # es) ! n)))"
        by (rule exI[of _ 0]) (use a same in simp)
      then show ?thesis ..
    qed
  next
    case later
    have e_lt: "keyword_score l (snd e) < keyword_score l (snd (es ! n))"
      using b1 later(3) by auto
    have b_lt: "snd b < keyword_score l (snd (es ! n))"
      using mono later(3) by simp
    have "\<forall>m<Suc n. keyword_score l (snd ((e # es) ! m)) < keyword_score l (snd (es ! n))"
    proof (intro allI impI)
      fix m assume "m < Suc n"
      then show "keyword_score l (snd ((e # es) ! m)) < keyword_score l (snd (es ! n))"
        using e_lt later(4) by (cases m) auto
    qed
    then have "\<exists>k<length (e # es). fold (detectIntent_step l) (e # es) b
          = (fst ((e # es) ! k), keyword_score l (snd ((e # es) ! k)))
        \<and> snd b < keyword_score l (snd ((e # es) ! k))
        \<and> (\<forall>m<k. keyword_score l (snd ((e # es) ! m)) < keyword_score l (snd ((e # es) ! k)))"
      using later(1,2) b_lt by (intro exI[of _ "Suc n"]) simp
    then show ?thesis ..
  qed
qed

lemma INTENT_KEYWORDS_nth:
  "n < 8 \<Longrightarrow> rank (fst (INTENT_KEYWORDS ! n)) = n
     \<and> snd (INTENT_KEYWORDS ! n) = keywords_of (fst (INTENT_KEYWORDS ! n))"
proof -
  assume "n < 8"
  then consider "n = 0" | "n = 1" | "n = 2" | "n = 3" | "n = 4" | "n = 5" | "n = 6" | "n = 7"
    by linarith
  then show ?thesis
    by cases (simp_all add: INTENT_KEYWORDS_def rank_def keywords_of_def)
qed

lemma rank_nth:
  "rank i < 8 \<and> fst (INTENT_KEYWORDS ! rank i) = i"
  by (cases i) (simp_all add: INTENT_KEYWORDS_def rank_def)

lemma length_INTENT_KEYWORDS: "length INTENT_KEYWORDS = 8"
  by (simp add: INTENT_KEYWORDS_def)

lemma score_nth_total:
  "keyword_score (toLowerCase input) (snd (INTENT_KEYWORDS ! rank i)) = intent_total input i"
  using INTENT_KEYWORDS_nth[of "rank i"] rank_nth[of i]
  by (simp add: keyword_score_eq intent_total_def)


lemma detectIntent_first_max:
  "(\<forall>j. intent_total input j \<le> intent_total input (detectIntent input))
   \<and> (\<forall>j. rank j < rank (detectIntent input)
          \<longrightarrow> intent_total input j < intent_total input (detectIntent input))
   \<and> ((\<forall>j. intent_total input j = 0) \<longrightarrow> detectIntent input = IFix)"
proof -
  let ?l = "toLowerCase input"
  let ?r = "fold (detectIntent_step ?l) INTENT_KEYWORDS (IFix, 0)"
  let ?sc = "\<lambda>n. keyword_score ?l (snd (INTENT_KEYWORDS ! n))"
  have w: "detectIntent input = fst ?r"
    by (simp add: detectIntent_def Let_def)
  have upper: "intent_total input j \<le> snd ?r" for j
    using fold_step_upper[of "rank j" INTENT_KEYWORDS ?l "(IFix, 0)"] rank_nth[of j]
    by (simp add: length_INTENT_KEYWORDS score_nth_total)
  from fold_step_first[of ?l INTENT_KEYWORDS "(IFix, 0)"] consider
    (init) "?r = (IFix, 0)"
    | (found) n where "n < 8" "?r = (fst (INTENT_KEYWORDS ! n), ?sc n)" "0 < ?sc n"
        "\<forall>m < n. ?sc m < ?sc n"
    by (auto simp: length_INTENT_KEYWORDS)
  then show ?thesis
  proof cases
    case init
    then have "detectIntent input = IFix" and "\<And>j. intent_total input j = 0"
      using w upper by (simp, metis le_zero_eq snd_conv)
    then show ?thesis by (simp add: rank_def)
  next
    case found
    have wn: "detectIntent input = fst (INTENT_KEYWORDS ! n)"
      using w found(2) by simp
    have rk: "rank (detectIntent input) = n"
      using wn INTENT_KEYWORDS_nth[OF found(1)] by simp
    have tot: "intent_total input (detectIntent input) = ?sc n"
      using score_nth_total[of input "detectIntent input"] rk by simp
    have c1: "\<forall>j. intent_total input j \<le> intent_total input (detectIntent input)"
      using upper found(2) tot by simp
    have c2: "\<forall>j. rank j < rank (detectIntent input)
          \<longrightarrow> intent_total input j < intent_total input (detectIntent input)"
    proof (intro allI impI)
      fix j assume "rank j < rank (detectIntent input)"
      then have "?sc (rank j) < ?sc n" using rk found(4) by simp
      then show "intent_total input j < intent_total input (detectIntent input)"
        using tot score_nth_total[of input j] by simp
    qed
    have c3: "(\<forall>j. intent_total input j = 0) \<longrightarrow> detectIntent input = IFix"
      using tot found(3) by auto
    from c1 c2 c3 show ?thesis by blast
  qed
qed

lemma rank_inj: "rank i = rank j \<Longrightarrow> i = j"
  using rank_nth[of i] rank_nth[of j] by metis

text \<open>
  Claim C2. \<open>detectIntent\<close> returns one of the eight intents; the total it returns is
  maximal, where the total of an intent is the sum of the lengths of its keywords that occur
  as substrings of the lower-cased input; an intent whose total is strictly above all others
  is the one returned; every intent earlier in enumeration order than the one returned has a
  strictly smaller total (a tie keeps the first); and when all totals are zero the result is
  \<open>fix\<close>. Being a function of its argument alone, it is total and deterministic.
\<close>

theorem detectIntent_classify:
  "detectIntent input \<in> set intent_order
   \<and> (\<forall>j. intent_total input j \<le> intent_total input (detectIntent input))
   \<and> (\<forall>i. (\<forall>j. j \<noteq> i \<longrightarrow> intent_total input j < intent_total input i)
          \<longrightarrow> detectIntent input = i)
   \<and> (\<forall>j. rank j < rank (detectIntent input)
          \<longrightarrow> intent_total input j < intent_total input (detectIntent input))
   \<and> ((\<forall>j. intent_total input j = 0) \<longrightarrow> detectIntent input = IFix)"
proof -
  have mem: "detectIntent input \<in> set intent_order"
    by (cases "detectIntent input") (simp_all add: intent_order_def)
  have strict: "\<forall>i. (\<forall>j. j \<noteq> i \<longrightarrow> intent_total input j < intent_total input i)
          \<longrightarrow> detectIntent input = i"
  proof (intro allI impI)
    fix i assume a: "\<forall>j. j \<noteq> i \<longrightarrow> intent_total input j < intent_total input i"
    show "detectIntent input = i"
    proof (rule ccontr)
      assume "detectIntent input \<noteq> i"
      then have "intent_total input (detectIntent input) < intent_total input i" using a by simp
      moreover have "intent_total input i \<le> intent_total input (detectIntent input)"
        using detectIntent_first_max[of input] by blast
      ultimately show False by simp
    qed
  qed
  from mem strict detectIntent_first_max[of input] show ?thesis by blast
qed

lemma total_eval:
  "intent_total input i = keyword_score (toLowerCase input) (keywords_of i)"
  by (simp add: keyword_score_eq intent_total_def)

lemma intent_cases:
  "j = IFix \<or> j = IAdd \<or> j = IChange \<or> j = IExplain \<or> j = ITest \<or> j = IReview
     \<or> j = IImprove \<or> j = IDocument"
  by (cases j) simp_all

theorem detectIntent_classify_witness:
  "detectIntent ''add a submit button'' = IAdd \<and> detectIntent ''xyz'' = IFix
   \<and> detectIntent ''fix the login bug'' = IFix"
proof -
  have l1: "toLowerCase ''add a submit button'' = ''add a submit button''"
    by code_simp
  have "map (\<lambda>j. sum_list (map length (filter (\<lambda>k. sublist k ''add a submit button'')
          (keywords_of j)))) intent_order = [0, 3, 0, 0, 0, 0, 0, 0]"
    by code_simp
  then have t: "intent_total ''add a submit button'' j = (if j = IAdd then 3 else 0)" for j
    using intent_cases[of j] by (auto simp: intent_order_def intent_total_def l1)
  have a: "detectIntent ''add a submit button'' = IAdd"
    using detectIntent_classify[of "''add a submit button''"] t by simp
  have l2: "toLowerCase ''xyz'' = ''xyz''"
    by code_simp
  have "map (\<lambda>j. sum_list (map length (filter (\<lambda>k. sublist k ''xyz'')
          (keywords_of j)))) intent_order = [0, 0, 0, 0, 0, 0, 0, 0]"
    by code_simp
  then have z: "intent_total ''xyz'' j = 0" for j
    using intent_cases[of j] by (auto simp: intent_order_def intent_total_def l2)
  have b: "detectIntent ''xyz'' = IFix"
    using detectIntent_classify[of "''xyz''"] z by simp
  have l3: "toLowerCase ''fix the login bug'' = ''fix the login bug''"
    by code_simp
  have "map (\<lambda>j. sum_list (map length (filter (\<lambda>k. sublist k ''fix the login bug'')
          (keywords_of j)))) intent_order = [6, 0, 0, 0, 0, 0, 0, 0]"
    by code_simp
  then have f: "intent_total ''fix the login bug'' j = (if j = IFix then 6 else 0)" for j
    using intent_cases[of j] by (auto simp: intent_order_def intent_total_def l3)
  have c: "detectIntent ''fix the login bug'' = IFix"
    using detectIntent_classify[of "''fix the login bug''"] f by simp
  from a b c show ?thesis by simp
qed

subsection \<open>AI enhancement: failure and fallback\<close>


lemma generation_failsD:
  "generation_fails e \<Longrightarrow> is_generation req \<Longrightarrow> failing (fetch e n req)"
  by (simp add: generation_fails_def)

lemma callOllamaAPI_fails:
  assumes "generation_fails e"
  shows "\<exists>x. fst (callOllamaAPI e input s) = Inl x"
proof -
  have "failing (fetch e (length (calls s))
          (PostGenerate (config_get e ''ollamaEndpoint'' ''http://localhost:11434'')
             (config_get e ''ollamaModel'' ''llama3.2'') input))"
    using assms by (rule generation_failsD) (simp add: is_generation_def)
  then show ?thesis
    by (auto simp: callOllamaAPI_def do_fetch_def failing_def Let_def
        split: fetch_result.splits http_body.splits)
qed

lemma callAnthropicAPI_fails:
  assumes "generation_fails e"
  shows "\<exists>x. fst (callAnthropicAPI e input k s) = Inl x"
proof -
  have "failing (fetch e (length (calls s)) (PostAnthropic k input))"
    using assms by (rule generation_failsD) (simp add: is_generation_def)
  then show ?thesis
    by (auto simp: callAnthropicAPI_def do_fetch_def failing_def
        split: fetch_result.splits http_body.splits)
qed

lemma callOpenAIAPI_fails:
  assumes "generation_fails e"
  shows "\<exists>x. fst (callOpenAIAPI e input k s) = Inl x"
proof -
  have "failing (fetch e (length (calls s)) (PostOpenAI k input))"
    using assms by (rule generation_failsD) (simp add: is_generation_def)
  then show ?thesis
    by (auto simp: callOpenAIAPI_def do_fetch_def failing_def
        split: fetch_result.splits http_body.splits)
qed

lemma manual_fails:
  "generation_fails e \<Longrightarrow>
     (\<exists>x. fst (enhanceWithManualAPI e input fb s) = Inl x)
     \<or> fst (enhanceWithManualAPI e input fb s) = Inr (fallback_result fb)"
  using callOllamaAPI_fails[of e input s]
    callAnthropicAPI_fails[of e input "config_get e ''apiKey'' ''''" s]
    callOpenAIAPI_fails[of e input "config_get e ''apiKey'' ''''" s]
  by (auto simp: enhanceWithManualAPI_def Let_def split: prod.splits sum.splits)

lemma manual_no_key:
  "config_get e ''manualProvider'' ''ollama'' \<noteq> ''ollama'' \<Longrightarrow>
   config_get e ''apiKey'' '''' = [] \<Longrightarrow>
   enhanceWithManualAPI e input fb s = (Inr (fallback_result fb), s)"
  by (simp add: enhanceWithManualAPI_def Let_def)

lemma manual_unknown:
  "config_get e ''manualProvider'' ''ollama'' \<notin> {''ollama'', ''anthropic'', ''openai''} \<Longrightarrow>
   enhanceWithManualAPI e input fb s = (Inr (fallback_result fb), s)"
  by (simp add: enhanceWithManualAPI_def Let_def)

lemma provider_fails:
  "generation_fails e \<Longrightarrow>
     (\<exists>x. fst (enhanceWithProvider e p input fb s) = Inl x)
     \<or> fst (enhanceWithProvider e p input fb s) = Inr (fallback_result fb)"
  using manual_fails[of e input fb s]
  by (cases p) (simp_all add: enhanceWithProvider_def)

lemma try_ai_fails:
  "generation_fails e \<Longrightarrow>
     (\<exists>x. fst (try_ai e mode input fb now s) = Inl x)
     \<or> fst (try_ai e mode input fb now s) = Inr None
     \<or> fst (try_ai e mode input fb now s) = Inr (Some (fallback_result fb))"
proof -
  assume g: "generation_fails e"
  show ?thesis
  proof (cases "mode = ''auto''")
    case True
    obtain running models s1 where c: "checkOllama e s = ((running, models), s1)"
      by (metis prod.exhaust)
    obtain found s2 where d: "LLMDetector_detect e False now s1 = (found, s2)"
      by (metis prod.exhaust)
    show ?thesis
      using callOllamaAPI_fails[OF g, of input s1]
        provider_fails[OF g, of "provider found" input fb s2] True c d
      by (auto simp: try_ai_def split: prod.splits)
  next
    case False
    then show ?thesis
      using manual_fails[OF g, of input fb s]
      by (auto simp: try_ai_def split: prod.splits)
  qed
qed

lemma enhance_total:
  "\<exists>r. fst (AIEnhancer_enhance e input fb now s) = Inr r"
  by (auto simp: AIEnhancer_enhance_def Let_def split: prod.splits sum.splits option.splits)

lemma enhance_fails:
  assumes "generation_fails e"
  shows "fst (AIEnhancer_enhance e input fb now s) = Inr (fallback_result fb)"
  using try_ai_fails[OF assms, of "config_get e ''enhancementMode'' ''auto''" input fb now s]
  by (auto simp: AIEnhancer_enhance_def Let_def split: prod.splits sum.splits option.splits)

lemma enhance_manual_no_key:
  assumes "config_get e ''enhancementMode'' ''auto'' = ''manual''"
    and "config_get e ''manualProvider'' ''ollama'' \<noteq> ''ollama''"
    and "config_get e ''apiKey'' '''' = []"
  shows "fst (AIEnhancer_enhance e input fb now s) = Inr (fallback_result fb)"
  using assms manual_no_key[of e input fb s]
  by (simp add: AIEnhancer_enhance_def Let_def try_ai_def)

lemma enhance_manual_unknown:
  assumes "config_get e ''enhancementMode'' ''auto'' = ''manual''"
    and "config_get e ''manualProvider'' ''ollama'' \<notin> {''ollama'', ''anthropic'', ''openai''}"
  shows "fst (AIEnhancer_enhance e input fb now s) = Inr (fallback_result fb)"
  using assms manual_unknown[of e input fb s]
  by (simp add: AIEnhancer_enhance_def Let_def try_ai_def)

text \<open>
  Claim C1. \<open>AIEnhancer.enhance\<close> never raises: for every configuration, every behaviour of
  the outside world and every pair of inputs it returns a result. Whenever the AI path fails,
  that is every generation call meets a transport error, a status that is not 2xx or a body
  that is not JSON, or the mode is \<open>manual\<close> and the configured provider needs an API key
  that is missing, or the mode is \<open>manual\<close> and the provider identifier is unknown, the
  result is the rule-based fallback text with \<open>wasAiEnhanced = false\<close>.
\<close>

theorem AIEnhancer_enhance_falls_back:
  "(\<exists>r. fst (AIEnhancer_enhance e input fb now s) = Inr r)
   \<and> (generation_fails e
        \<or> (config_get e ''enhancementMode'' ''auto'' = ''manual''
            \<and> config_get e ''manualProvider'' ''ollama'' \<noteq> ''ollama''
            \<and> config_get e ''apiKey'' '''' = [])
        \<or> (config_get e ''enhancementMode'' ''auto'' = ''manual''
            \<and> config_get e ''manualProvider'' ''ollama''
                 \<notin> {''ollama'', ''anthropic'', ''openai''})
       \<longrightarrow> fst (AIEnhancer_enhance e input fb now s)
            = Inr \<lparr>prompt = fb, preview = take 200 fb, wasAiEnhanced = False\<rparr>)"
  using enhance_total[of e input fb now s] enhance_fails[of e input fb now s]
    enhance_manual_no_key[of e input fb now s] enhance_manual_unknown[of e input fb now s]
  by (auto simp: fallback_result_def substring_0_200_def)

theorem AIEnhancer_enhance_falls_back_witness:
  "fst (AIEnhancer_enhance env_server_error ''btn not work'' ''Button is broken.'' 0 initial_state)
     = Inr \<lparr>prompt = ''Button is broken.'', preview = ''Button is broken.'', wasAiEnhanced = False\<rparr>
   \<and> fst (AIEnhancer_enhance env_no_key ''btn not work'' ''Button is broken.'' 0 initial_state)
     = Inr \<lparr>prompt = ''Button is broken.'', preview = ''Button is broken.'', wasAiEnhanced = False\<rparr>
   \<and> fst (AIEnhancer_enhance env_unknown_provider ''btn not work'' ''Button is broken.'' 0
            initial_state)
     = Inr \<lparr>prompt = ''Button is broken.'', preview = ''Button is broken.'', wasAiEnhanced = False\<rparr>"
proof -
  have h1: "generation_fails env_server_error"
    by (simp add: generation_fails_def env_server_error_def failing_def ok_def)
  have h2: "config_get env_no_key ''enhancementMode'' ''auto'' = ''manual''
      \<and> config_get env_no_key ''manualProvider'' ''ollama'' \<noteq> ''ollama''
      \<and> config_get env_no_key ''apiKey'' '''' = []"
    by (simp add: config_get_def env_no_key_def)
  have h3: "config_get env_unknown_provider ''enhancementMode'' ''auto'' = ''manual''
      \<and> config_get env_unknown_provider ''manualProvider'' ''ollama''
           \<notin> {''ollama'', ''anthropic'', ''openai''}"
    by (simp add: config_get_def env_unknown_provider_def)
  have t: "take 200 ''Button is broken.'' = ''Button is broken.''"
    by simp
  show ?thesis
    using h1 h2 h3 t
      AIEnhancer_enhance_falls_back[of env_server_error "''btn not work''" "''Button is broken.''"
        0 initial_state]
      AIEnhancer_enhance_falls_back[of env_no_key "''btn not work''" "''Button is broken.''"
        0 initial_state]
      AIEnhancer_enhance_falls_back[of env_unknown_provider "''btn not work''"
        "''Button is broken.''" 0 initial_state]
    by presburger
qed

text \<open>
  Claim C3. In mode \<open>ruleOnly\<close>, \<open>AIEnhancer.enhance\<close> makes no external call (the log of
  calls and the whole state are unchanged) and returns the rule-based prompt as it is, with
  \<open>wasAiEnhanced = false\<close>, for every user input and every rule-based prompt.
\<close>

theorem ruleOnly_no_network_call:
  assumes "config_get e ''enhancementMode'' ''auto'' = ''ruleOnly''"
  shows "fst (AIEnhancer_enhance e input rb now s)
           = Inr \<lparr>prompt = rb, preview = take 200 rb, wasAiEnhanced = False\<rparr>
         \<and> calls (snd (AIEnhancer_enhance e input rb now s)) = calls s
         \<and> snd (AIEnhancer_enhance e input rb now s) = s"
  using assms
  by (simp add: AIEnhancer_enhance_def Let_def fallback_result_def substring_0_200_def)

theorem ruleOnly_no_network_call_witness:
  "fst (AIEnhancer_enhance env_rule_only ''btn not work'' ''Button is broken.'' 0 initial_state)
     = Inr \<lparr>prompt = ''Button is broken.'', preview = ''Button is broken.'', wasAiEnhanced = False\<rparr>
   \<and> calls (snd (AIEnhancer_enhance env_rule_only ''btn not work'' ''Button is broken.'' 0
                 initial_state)) = []"
proof -
  have h: "config_get env_rule_only ''enhancementMode'' ''auto'' = ''ruleOnly''"
    by (simp add: config_get_def env_rule_only_def)
  have t: "take 200 ''Button is broken.'' = ''Button is broken.''"
    by simp
  have c: "calls initial_state = []"
    by (simp add: initial_state_def)
  show ?thesis
    using ruleOnly_no_network_call[OF h, of "''btn not work''" "''Button is broken.''" 0
        initial_state] t c
    by simp
qed

subsection \<open>The caches of backend availability\<close>


lemma do_getExtension_calls:
  "snd (do_getExtension e x s) = s\<lparr>calls := calls s @ [GetExtension x]\<rparr>"
  by (simp add: do_getExtension_def)

lemma do_exec_calls: "snd (do_exec e x s) = s\<lparr>calls := calls s @ [Exec x]\<rparr>"
  by (simp add: do_exec_def)

lemma case_bool_pair:
  "(case p of (True, s) \<Rightarrow> A s | (False, s) \<Rightarrow> B s) = (if fst p then A (snd p) else B (snd p))"
  by (cases p; cases "fst p"; simp)

lemma isCursorEditor_state: "snd (isCursorEditor e s) = s\<lparr>calls := calls s @ [AppName]\<rparr>"
  by (simp add: isCursorEditor_def Let_def)

lemma isClaudeCodeInstalled_state:
  "\<exists>evs. snd (isClaudeCodeInstalled e s) = s\<lparr>calls := calls s @ evs\<rparr>"
  by (auto simp: isClaudeCodeInstalled_def case_bool_pair do_exec_def)

lemma isContinueInstalled_state:
  "\<exists>evs. snd (isContinueInstalled e s) = s\<lparr>calls := calls s @ evs\<rparr>"
  by (auto simp: isContinueInstalled_def do_getExtension_def)

lemma isCodyInstalled_state:
  "\<exists>evs. snd (isCodyInstalled e s) = s\<lparr>calls := calls s @ evs\<rparr>"
  by (auto simp: isCodyInstalled_def do_getExtension_def)

lemma isCopilotInstalled_state:
  "\<exists>evs. snd (isCopilotInstalled e s) = s\<lparr>calls := calls s @ evs\<rparr>"
  by (auto simp: isCopilotInstalled_def do_getExtension_def split: prod.splits)

lemma run_probes_state:
  "\<exists>evs. snd (run_probes e s) = s\<lparr>calls := calls s @ AppName # evs\<rparr>"
proof -
  let ?s1 = "snd (isCursorEditor e s)"
  let ?s2 = "snd (isClaudeCodeInstalled e ?s1)"
  let ?s3 = "snd (isContinueInstalled e ?s2)"
  let ?s4 = "snd (isCodyInstalled e ?s3)"
  let ?s5 = "snd (isCopilotInstalled e ?s4)"
  have s1: "?s1 = s\<lparr>calls := calls s @ [AppName]\<rparr>"
    by (rule isCursorEditor_state)
  obtain e2 where s2: "?s2 = s\<lparr>calls := calls s @ AppName # e2\<rparr>"
    using isClaudeCodeInstalled_state[of e ?s1] s1 by auto
  obtain e3 where s3: "?s3 = s\<lparr>calls := calls s @ AppName # e3\<rparr>"
    using isContinueInstalled_state[of e ?s2] s2 by auto
  obtain e4 where s4: "?s4 = s\<lparr>calls := calls s @ AppName # e4\<rparr>"
    using isCodyInstalled_state[of e ?s3] s3 by auto
  obtain e5 where s5: "?s5 = s\<lparr>calls := calls s @ AppName # e5\<rparr>"
    using isCopilotInstalled_state[of e ?s4] s4 by auto
  have "snd (run_probes e s) \<in> {?s1, ?s2, ?s3, ?s4, ?s5}"
    by (simp add: run_probes_def case_bool_pair)
  then show ?thesis
    using s1 s2 s3 s4 s5 by auto
qed

lemma detect_cached:
  assumes "cachedResult s = Some r" "\<not> forceRefresh" "now - lastCheck s < 60000"
  shows "LLMDetector_detect e forceRefresh now s = (r, s)"
  using assms by (simp add: LLMDetector_detect_def CACHE_DURATION_def)

lemma detect_probes:
  assumes "forceRefresh \<or> cachedResult s = None \<or> 60000 \<le> now - lastCheck s"
  shows "LLMDetector_detect e forceRefresh now s
           = (fst (run_probes e s),
              (snd (run_probes e s))\<lparr>cachedResult := Some (fst (run_probes e s)),
                                     lastCheck := now\<rparr>)"
  using assms
  by (auto simp: LLMDetector_detect_def CACHE_DURATION_def split: prod.splits option.splits)

lemma detect_probes_log:
  assumes "forceRefresh \<or> cachedResult s = None \<or> 60000 \<le> now - lastCheck s"
  shows "\<exists>evs. calls (snd (LLMDetector_detect e forceRefresh now s)) = calls s @ AppName # evs"
proof -
  obtain evs where "snd (run_probes e s) = s\<lparr>calls := calls s @ AppName # evs\<rparr>"
    using run_probes_state by blast
  then show ?thesis
    using detect_probes[OF assms, of e] by simp
qed

lemma isOllamaRunning_state:
  "snd (isOllamaRunning e ep s) = s\<lparr>calls := calls s @ [Fetch (GetTags ep)]\<rparr>"
  by (simp add: isOllamaRunning_def do_fetch_def split: fetch_result.splits)

lemma getOllamaModels_state:
  "snd (getOllamaModels e ep s) = s\<lparr>calls := calls s @ [Fetch (GetTags ep)]\<rparr>"
  by (simp add: getOllamaModels_def do_fetch_def split: fetch_result.splits http_body.splits
      sum.splits)

lemma checkOllama_unfold:
  "checkOllama e s =
     (let ep = config_get e ''ollamaEndpoint'' ''http://localhost:11434'';
          running = fst (isOllamaRunning e ep s);
          s2 = (snd (isOllamaRunning e ep s))\<lparr>ollamaAvailable := Some running\<rparr>;
          s3 = (if running
                then (snd (getOllamaModels e ep s2))\<lparr>ollamaModels := fst (getOllamaModels e ep s2)\<rparr>
                else s2)
      in ((running, ollamaModels s3), s3))"
  by (simp add: checkOllama_def Let_def split: prod.splits)

lemma checkOllama_probes:
  "\<exists>evs. calls (snd (checkOllama e s))
       = calls s @ Fetch (GetTags (config_get e ''ollamaEndpoint'' ''http://localhost:11434'')) # evs"
  by (simp add: checkOllama_unfold Let_def isOllamaRunning_state getOllamaModels_state)

lemma checkOllama_stores:
  "ollamaAvailable (snd (checkOllama e s)) = Some (fst (fst (checkOllama e s)))
   \<and> ollamaModels (snd (checkOllama e s)) = snd (fst (checkOllama e s))"
  by (simp add: checkOllama_unfold Let_def isOllamaRunning_state getOllamaModels_state)

lemma flaky1:
  "checkOllama env_flaky initial_state =
     ((True, [JStr ''llama3.2'']),
      \<lparr>ollamaAvailable = Some True, ollamaModels = [JStr ''llama3.2''], cachedResult = None,
       lastCheck = 0,
       calls = [Fetch (GetTags ''http://localhost:11434''),
                Fetch (GetTags ''http://localhost:11434'')]\<rparr>)"
  by code_simp

lemma flaky2:
  "checkOllama env_flaky
      \<lparr>ollamaAvailable = Some True, ollamaModels = [JStr ''llama3.2''], cachedResult = None,
       lastCheck = 0,
       calls = [Fetch (GetTags ''http://localhost:11434''),
                Fetch (GetTags ''http://localhost:11434'')]\<rparr> =
     ((False, [JStr ''llama3.2'']),
      \<lparr>ollamaAvailable = Some False, ollamaModels = [JStr ''llama3.2''], cachedResult = None,
       lastCheck = 0,
       calls = [Fetch (GetTags ''http://localhost:11434''),
                Fetch (GetTags ''http://localhost:11434''),
                Fetch (GetTags ''http://localhost:11434'')]\<rparr>)"
  by code_simp


text \<open>
  \<open>LLMDetector.detect\<close> caches under a time-to-live of 60 seconds: a call that is not
  forced, with a cached result younger than 60000 ms, returns that result and makes no
  external call (the state is unchanged); a forced call, a call with no cached result (the
  state after \<open>clearCache\<close>) and a call 60000 ms or more after the last probe run the probes
  again, store the result and set the time stamp; so after a probing call, a second call
  within the window returns the identical result without a probe, whatever the environment
  has become.
\<close>

lemma LLMDetector_detect_ttl:
  "(cachedResult s = Some r \<and> \<not> forceRefresh \<and> now - lastCheck s < 60000
      \<longrightarrow> LLMDetector_detect e forceRefresh now s = (r, s))
   \<and> (forceRefresh \<or> cachedResult s = None \<or> 60000 \<le> now - lastCheck s
      \<longrightarrow> (\<exists>evs. calls (snd (LLMDetector_detect e forceRefresh now s)) = calls s @ AppName # evs)
          \<and> cachedResult (snd (LLMDetector_detect e forceRefresh now s))
              = Some (fst (LLMDetector_detect e forceRefresh now s))
          \<and> lastCheck (snd (LLMDetector_detect e forceRefresh now s)) = now)
   \<and> ((forceRefresh \<or> cachedResult s = None \<or> 60000 \<le> now - lastCheck s)
        \<and> now2 - now < 60000
      \<longrightarrow> LLMDetector_detect e2 False now2 (snd (LLMDetector_detect e forceRefresh now s))
          = LLMDetector_detect e forceRefresh now s)
   \<and> cachedResult (LLMDetector_clearCache s) = None"
proof -
  have c1: "cachedResult s = Some r \<and> \<not> forceRefresh \<and> now - lastCheck s < 60000
      \<longrightarrow> LLMDetector_detect e forceRefresh now s = (r, s)"
    using detect_cached[of s r forceRefresh now e] by blast
  have c2: "forceRefresh \<or> cachedResult s = None \<or> 60000 \<le> now - lastCheck s
      \<longrightarrow> (\<exists>evs. calls (snd (LLMDetector_detect e forceRefresh now s)) = calls s @ AppName # evs)
          \<and> cachedResult (snd (LLMDetector_detect e forceRefresh now s))
              = Some (fst (LLMDetector_detect e forceRefresh now s))
          \<and> lastCheck (snd (LLMDetector_detect e forceRefresh now s)) = now"
  proof
    assume a: "forceRefresh \<or> cachedResult s = None \<or> 60000 \<le> now - lastCheck s"
    show "(\<exists>evs. calls (snd (LLMDetector_detect e forceRefresh now s)) = calls s @ AppName # evs)
          \<and> cachedResult (snd (LLMDetector_detect e forceRefresh now s))
              = Some (fst (LLMDetector_detect e forceRefresh now s))
          \<and> lastCheck (snd (LLMDetector_detect e forceRefresh now s)) = now"
      using detect_probes_log[OF a, of e] detect_probes[OF a, of e] by simp
  qed
  have c3: "(forceRefresh \<or> cachedResult s = None \<or> 60000 \<le> now - lastCheck s)
        \<and> now2 - now < 60000
      \<longrightarrow> LLMDetector_detect e2 False now2 (snd (LLMDetector_detect e forceRefresh now s))
          = LLMDetector_detect e forceRefresh now s"
  proof
    assume a: "(forceRefresh \<or> cachedResult s = None \<or> 60000 \<le> now - lastCheck s)
        \<and> now2 - now < 60000"
    let ?d = "LLMDetector_detect e forceRefresh now s"
    have "cachedResult (snd ?d) = Some (fst ?d)" and "lastCheck (snd ?d) = now"
      using c2 a by blast+
    then have "LLMDetector_detect e2 False now2 (snd ?d) = (fst ?d, snd ?d)"
      using a detect_cached[of "snd ?d" "fst ?d" False now2 e2] by simp
    then show "LLMDetector_detect e2 False now2 (snd ?d) = ?d"
      by simp
  qed
  have c4: "cachedResult (LLMDetector_clearCache s) = None"
    by (simp add: LLMDetector_clearCache_def)
  from c1 c2 c3 c4 show ?thesis by blast
qed

lemma LLMDetector_detect_ttl_example:
  "LLMDetector_detect env_flaky False 2000 (snd (LLMDetector_detect env_flaky False 1000 initial_state))
     = LLMDetector_detect env_flaky False 1000 initial_state
   \<and> lastCheck (snd (LLMDetector_detect env_flaky False 1000 initial_state)) = 1000
   \<and> lastCheck (snd (LLMDetector_detect env_flaky False 61000
         (snd (LLMDetector_detect env_flaky False 1000 initial_state)))) = 61000
   \<and> lastCheck (snd (LLMDetector_detect env_flaky True 2000
         (snd (LLMDetector_detect env_flaky False 1000 initial_state)))) = 2000"
proof -
  let ?s1 = "snd (LLMDetector_detect env_flaky False 1000 initial_state)"
  have h0: "cachedResult initial_state = None"
    by (simp add: initial_state_def)
  have w1: "LLMDetector_detect env_flaky False 2000 ?s1
              = LLMDetector_detect env_flaky False 1000 initial_state"
    using LLMDetector_detect_ttl[of initial_state _ False 1000 env_flaky 2000 env_flaky] h0
    by simp
  have w2: "lastCheck ?s1 = 1000"
    using LLMDetector_detect_ttl[of initial_state _ False 1000 env_flaky] h0 by simp
  have w3: "lastCheck (snd (LLMDetector_detect env_flaky False 61000 ?s1)) = 61000"
    using LLMDetector_detect_ttl[of ?s1 _ False 61000 env_flaky] w2 by simp
  have w4: "lastCheck (snd (LLMDetector_detect env_flaky True 2000 ?s1)) = 2000"
    using LLMDetector_detect_ttl[of ?s1 _ True 2000 env_flaky] by simp
  from w1 w2 w3 w4 show ?thesis by blast
qed

text \<open>
  Claim C10 fails for \<open>AIEnhancer.checkOllama\<close>. The enhancer keeps no time stamp and never
  reads \<open>ollamaAvailable\<close> or \<open>ollamaModels\<close> before probing: in every environment and
  state a call of \<open>checkOllama\<close> requests \<open>/api/tags\<close> from the local backend. With a
  backend that answers two requests and is unreachable afterwards, the first call reports
  the backend available after two requests, and a second call right after it sends a third
  request and reports the backend unavailable, where a cache with a time-to-live of 60 seconds
  returns the first result without a probe. \<open>clearCache\<close> resets the two stored fields.
\<close>

theorem checkOllama_probes_every_call:
  "(\<exists>evs. calls (snd (checkOllama e s))
         = calls s @ Fetch (GetTags (config_get e ''ollamaEndpoint'' ''http://localhost:11434''))
             # evs)
   \<and> ollamaAvailable (AIEnhancer_clearCache s) = None
   \<and> ollamaModels (AIEnhancer_clearCache s) = []
   \<and> fst (checkOllama env_flaky initial_state) = (True, [JStr ''llama3.2''])
   \<and> calls (snd (checkOllama env_flaky initial_state))
       = [Fetch (GetTags ''http://localhost:11434''), Fetch (GetTags ''http://localhost:11434'')]
   \<and> fst (checkOllama env_flaky (snd (checkOllama env_flaky initial_state)))
       = (False, [JStr ''llama3.2''])
   \<and> calls (snd (checkOllama env_flaky (snd (checkOllama env_flaky initial_state))))
       = [Fetch (GetTags ''http://localhost:11434''), Fetch (GetTags ''http://localhost:11434''),
          Fetch (GetTags ''http://localhost:11434'')]"
proof -
  have c5: "ollamaAvailable (AIEnhancer_clearCache s) = None
      \<and> ollamaModels (AIEnhancer_clearCache s) = []"
    by (simp add: AIEnhancer_clearCache_def)
  from c5 checkOllama_probes[of e s] show ?thesis
    by (simp add: flaky1 flaky2)
qed

subsection \<open>Word expansion\<close>











subsection \<open>Sentence structure\<close>


lemma improveStructure_unfold:
  "improveStructure input =
     capitalize (replace_final_letter (replace_how (replace_lead ''want'' ''I need ''
       (replace_lead ''make'' ''Implement '' (replace_not_work input)))))"
  by (simp add: improveStructure_def STRUCTURE_PATTERNS_def)

lemma code_char_of: "n < 256 \<Longrightarrow> code (char_of n) = n"
  by (simp add: code_def)

lemma code_less: "code c < 256"
  by (simp add: code_def)

lemma toUpperCase_char_letter:
  assumes "isAsciiLetter c"
  shows "\<exists>u. toUpperCase_char c = [u] \<and> isAsciiUpper u"
proof (cases "97 \<le> code c \<and> code c \<le> 122")
  case True
  then have "toUpperCase_char c = [char_of (code c - 32)]"
    by (simp add: toUpperCase_char_def)
  moreover have "isAsciiUpper (char_of (code c - 32))"
  proof -
    have "code c - 32 < (256::nat)" using True by arith
    then have "code (char_of (code c - 32)) = code c - 32" by (rule code_char_of)
    then show ?thesis using True unfolding isAsciiUpper_def by arith
  qed
  ultimately show ?thesis by blast
next
  case False
  then have "toUpperCase_char c = [c]" and "isAsciiUpper c"
    using assms by (auto simp: toUpperCase_char_def isAsciiLetter_def isAsciiUpper_def)
  then show ?thesis by blast
qed

lemma not_work_scan_skip: "not_work_scan k s = not_work_scan 0 (drop k s)"
  by (induction k s rule: not_work_scan.induct) simp_all

lemma match_not_work_word:
  "match_not_work (c # cs) = Some (w, n) \<Longrightarrow> isWordChar c \<and> (\<exists>w'. w = c # w') \<and> 0 < n"
  by (auto simp: match_not_work_def Let_def split: if_splits)

lemma not_work_scan_head:
  "isAsciiLetter c \<Longrightarrow> \<exists>t. not_work_scan 0 (c # cs) = c # t"
  using match_not_work_word[of c cs]
  by (cases "match_not_work (c # cs)") auto

lemma not_work_scan_last:
  "s \<noteq> [] \<Longrightarrow> isAsciiLetter (last s) \<Longrightarrow>
     not_work_scan 0 s \<noteq> [] \<and> isAsciiLetter (last (not_work_scan 0 s))"
proof (induction s rule: length_induct)
  case (1 s)
  then obtain c cs where s: "s = c # cs" by (cases s) auto
  show ?case
  proof (cases "match_not_work (c # cs)")
    case None
    show ?thesis
    proof (cases "cs = []")
      case True
      then show ?thesis using None s "1.prems" by simp
    next
      case False
      then have "not_work_scan 0 cs \<noteq> [] \<and> isAsciiLetter (last (not_work_scan 0 cs))"
        using "1.IH" s "1.prems" by simp
      then show ?thesis using None s by simp
    qed
  next
    case (Some a)
    obtain w n where a: "a = (w, n)" by (cases a)
    let ?rest = "drop (n - 1) cs"
    have r: "not_work_scan 0 s = w @ '' is not working correctly'' @ not_work_scan 0 ?rest"
      using Some a s not_work_scan_skip[of "n - 1" cs] by simp
    show ?thesis
    proof (cases "?rest = []")
      case True
      then show ?thesis using r by (simp add: isAsciiLetter_def code_def)
    next
      case False
      then have "cs \<noteq> []" by auto
      with False have "last ?rest = last s"
        using s by (simp add: last_drop)
      moreover have "length ?rest < length s"
        using s by simp
      ultimately have "not_work_scan 0 ?rest \<noteq> []
          \<and> isAsciiLetter (last (not_work_scan 0 ?rest))"
        using "1.IH" False "1.prems" by metis
      then show ?thesis using r by simp
    qed
  qed
qed

lemma space_dot_plus_Some:
  "space_dot_plus n r = Some (g, m) \<Longrightarrow>
     g \<noteq> [] \<and> (\<exists>k. m = k + length g \<and> g = takeWhile (\<lambda>c. \<not> isLineTerminator c) (drop k r))"
proof (induction n)
  case 0
  then show ?case by simp
next
  case (Suc n)
  then show ?case
    by (auto simp: Let_def split: if_splits)
qed

lemma replace_lead_last:
  assumes "s \<noteq> []" "isAsciiLetter (last s)" "repl \<noteq> []"
  shows "replace_lead lead repl s \<noteq> [] \<and> isAsciiLetter (last (replace_lead lead repl s))"
proof (cases "ci_prefix lead s")
  case False
  then show ?thesis using assms by (simp add: replace_lead_def)
next
  case True
  let ?r = "drop (length lead) s"
  show ?thesis
  proof (cases "space_dot_plus (length (takeWhile isWhiteSpace ?r)) ?r")
    case None
    then show ?thesis using assms True by (simp add: replace_lead_def Let_def)
  next
    case (Some a)
    obtain g m where a: "a = (g, m)" by (cases a)
    from space_dot_plus_Some[OF Some[unfolded a]] obtain k where
      g: "g \<noteq> []" and m: "m = k + length g"
      and gt: "g = takeWhile (\<lambda>c. \<not> isLineTerminator c) (drop k ?r)"
      by blast
    have res: "replace_lead lead repl s = repl @ g @ drop m ?r"
      using True Some a by (simp add: replace_lead_def Let_def)
    have dk: "drop k ?r = g @ drop m ?r"
      using gt m by (metis add.commute drop_drop takeWhile_dropWhile_id dropWhile_eq_drop)
    have rne: "drop k ?r \<noteq> []" using g gt by auto
    then have "last (drop k ?r) = last s"
      by (metis drop_drop drop_eq_Nil2 last_drop linorder_not_le)
    then have "last (g @ drop m ?r) = last s"
      using dk by simp
    then show ?thesis using res g assms by simp
  qed
qed

lemma replace_how_last:
  assumes "s \<noteq> []" "isAsciiLetter (last s)"
  shows "replace_how s \<noteq> [] \<and> isAsciiLetter (last (replace_how s))"
  using assms by (simp add: replace_how_def Let_def isAsciiLetter_def code_def)

lemma replace_lead_head:
  assumes "s = c # cs" "isAsciiLetter c" "repl = u # us" "isAsciiLetter u"
  shows "\<exists>d t. replace_lead lead repl s = d # t \<and> isAsciiLetter d"
  using assms by (auto simp: replace_lead_def Let_def split: option.splits)

lemma replace_how_head:
  assumes "s = c # cs" "isAsciiLetter c"
  shows "\<exists>d t. replace_how s = d # t \<and> isAsciiLetter d"
  using assms by (auto simp: replace_how_def Let_def isAsciiLetter_def code_def)

lemma replace_final_letter_head:
  assumes "s = c # cs"
  shows "\<exists>t. replace_final_letter s = c # t"
  using assms by (simp add: replace_final_letter_def)

lemma improveStructure_head:
  assumes "input = c # cs" "isAsciiLetter c"
  shows "\<exists>u us. improveStructure input = u # us \<and> isAsciiUpper u"
proof -
  obtain t1 where 1: "replace_not_work input = c # t1"
    using not_work_scan_head[OF assms(2), of cs] assms(1) by (auto simp: replace_not_work_def)
  have I: "isAsciiLetter (CHR ''I'')" by (simp add: isAsciiLetter_def code_def)
  obtain d2 t2 where 2: "replace_lead ''make'' ''Implement '' (replace_not_work input) = d2 # t2"
    and l2: "isAsciiLetter d2"
    using replace_lead_head[OF 1 assms(2) _ I, of "''Implement ''" "''mplement ''" "''make''"]
    by auto
  obtain d3 t3 where 3: "replace_lead ''want'' ''I need ''
       (replace_lead ''make'' ''Implement '' (replace_not_work input)) = d3 # t3"
    and l3: "isAsciiLetter d3"
    using replace_lead_head[OF 2 l2 _ I, of "''I need ''" "'' need ''" "''want''"]
    by auto
  obtain d4 t4 where 4: "replace_how (replace_lead ''want'' ''I need ''
       (replace_lead ''make'' ''Implement '' (replace_not_work input))) = d4 # t4"
    and l4: "isAsciiLetter d4"
    using replace_how_head[OF 3 l3] by auto
  obtain t5 where 5: "replace_final_letter (replace_how (replace_lead ''want'' ''I need ''
       (replace_lead ''make'' ''Implement '' (replace_not_work input)))) = d4 # t5"
    using replace_final_letter_head[OF 4] by auto
  obtain u where u: "toUpperCase_char d4 = [u]" "isAsciiUpper u"
    using toUpperCase_char_letter[OF l4] by auto
  have "improveStructure input = u # t5"
    using 5 u by (simp add: improveStructure_unfold capitalize_def)
  then show ?thesis using u by blast
qed

lemma improveStructure_last:
  assumes "input \<noteq> []" "isAsciiLetter (last input)"
  shows "improveStructure input \<noteq> [] \<and> last (improveStructure input) = CHR ''.''"
proof -
  let ?t1 = "replace_not_work input"
  let ?t2 = "replace_lead ''make'' ''Implement '' ?t1"
  let ?t3 = "replace_lead ''want'' ''I need '' ?t2"
  let ?t4 = "replace_how ?t3"
  have 1: "?t1 \<noteq> [] \<and> isAsciiLetter (last ?t1)"
    using not_work_scan_last[OF assms] by (simp add: replace_not_work_def)
  have 2: "?t2 \<noteq> [] \<and> isAsciiLetter (last ?t2)"
    using replace_lead_last[of ?t1 "''Implement ''" "''make''"] 1 by simp
  have 3: "?t3 \<noteq> [] \<and> isAsciiLetter (last ?t3)"
    using replace_lead_last[of ?t2 "''I need ''" "''want''"] 2 by simp
  have 4: "?t4 \<noteq> [] \<and> isAsciiLetter (last ?t4)"
    using replace_how_last[of ?t3] 3 by simp
  then obtain c cs where c: "?t4 = c # cs" by (cases ?t4) auto
  have "replace_final_letter ?t4 = c # (cs @ ''.'')"
    using 4 c by (simp add: replace_final_letter_def)
  then have "improveStructure input = toUpperCase_char c @ cs @ ''.''"
    by (simp add: improveStructure_unfold capitalize_def)
  then show ?thesis by simp
qed

lemma ci_prefix_nth:
  "ci_prefix p t \<Longrightarrow>
     length p \<le> length t \<and> (\<forall>i<length p. canonicalize (p ! i) = canonicalize (t ! i))"
proof (induction p t rule: ci_prefix.induct)
  case (3 p ps c cs)
  then show ?case
    by (auto simp: nth_Cons split: nat.splits)
qed simp_all

lemma match_not_work_end:
  assumes "match_not_work s = Some (w, n)"
  shows "0 < n \<and> n \<le> length s \<and> canonicalize (s ! (n - 1)) = canonicalize CHR ''k''"
proof -
  define r1 where "r1 = dropWhile isWordChar s"
  define s1 where "s1 = takeWhile isWhiteSpace r1"
  define r2 where "r2 = dropWhile isWhiteSpace r1"
  define r3 where "r3 = drop 3 r2"
  define s2 where "s2 = takeWhile isWhiteSpace r3"
  define r4 where "r4 = dropWhile isWhiteSpace r3"
  have c: "ci_prefix ''not'' r2" "ci_prefix ''work'' r4"
    and w: "w = takeWhile isWordChar s"
    and n: "n = length w + length s1 + 3 + length s2 + 4"
    using assms
    by (auto simp: match_not_work_def Let_def r1_def s1_def r2_def r3_def s2_def r4_def
        split: if_splits)
  have l2: "3 \<le> length r2" using ci_prefix_nth[OF c(1)] by simp
  have l4: "4 \<le> length r4"
    using ci_prefix_nth[OF c(2)] by simp
  have "canonicalize (''work'' ! 3) = canonicalize (r4 ! 3)"
    using ci_prefix_nth[OF c(2)] by (metis length_Cons list.size(3) lessI numeral_3_eq_3)
  then have k: "canonicalize CHR ''k'' = canonicalize (r4 ! 3)"
    by (simp add: numeral_3_eq_3)
  have "s = w @ r1" by (simp add: w r1_def)
  moreover have "r1 = s1 @ r2" by (simp add: s1_def r2_def)
  moreover have "r2 = take 3 r2 @ r3" by (simp add: r3_def)
  moreover have "r3 = s2 @ r4" by (simp add: s2_def r4_def)
  ultimately have s: "s = (w @ s1 @ take 3 r2 @ s2) @ r4"
    by simp
  have len: "length (w @ s1 @ take 3 r2 @ s2) = n - 4"
    using l2 n by simp
  have "s ! (n - 1) = r4 ! 3"
  proof -
    have "n - 1 = length (w @ s1 @ take 3 r2 @ s2) + 3"
      using len n by simp
    then show ?thesis
      by (subst s) (simp only: nth_append_length_plus)
  qed
  moreover have "n \<le> length s"
  proof -
    have "length s = length ((w @ s1 @ take 3 r2 @ s2) @ r4)"
      by (subst s) (rule refl)
    also have "\<dots> = length (w @ s1 @ take 3 r2 @ s2) + length r4"
      by (rule length_append)
    finally have "length s = (n - 4) + length r4"
      using len by simp
    then show ?thesis using l4 n by simp
  qed
  ultimately show ?thesis
    using k n by simp
qed

lemma not_work_scan_keeps_last:
  "s \<noteq> [] \<Longrightarrow> canonicalize (last s) \<noteq> canonicalize CHR ''k'' \<Longrightarrow>
     not_work_scan 0 s \<noteq> [] \<and> last (not_work_scan 0 s) = last s"
proof (induction s rule: length_induct)
  case (1 s)
  then obtain c cs where s: "s = c # cs" by (cases s) auto
  show ?case
  proof (cases "match_not_work (c # cs)")
    case None
    show ?thesis
    proof (cases "cs = []")
      case True
      then show ?thesis using None s by simp
    next
      case False
      then have "not_work_scan 0 cs \<noteq> [] \<and> last (not_work_scan 0 cs) = last cs"
        using "1.IH" s "1.prems" by simp
      then show ?thesis using None s False by simp
    qed
  next
    case (Some a)
    obtain w n where a: "a = (w, n)" by (cases a)
    let ?rest = "drop (n - 1) cs"
    have e: "0 < n" "n \<le> length s" "canonicalize (s ! (n - 1)) = canonicalize CHR ''k''"
      using match_not_work_end[of s w n] Some a s by auto
    have r: "not_work_scan 0 s = w @ '' is not working correctly'' @ not_work_scan 0 ?rest"
      using Some a s not_work_scan_skip[of "n - 1" cs] by simp
    have ne: "?rest \<noteq> []"
    proof
      assume "?rest = []"
      then have "n = length s" using e(1,2) s by simp
      then have "s ! (n - 1) = last s"
        using "1.prems"(1) by (simp add: last_conv_nth)
      then show False using e(3) "1.prems"(2) by simp
    qed
    then have "cs \<noteq> []" by auto
    with ne have "last ?rest = last s"
      using s by (simp add: last_drop)
    moreover have "length ?rest < length s"
      using s by simp
    ultimately have "not_work_scan 0 ?rest \<noteq> [] \<and> last (not_work_scan 0 ?rest) = last s"
      using "1.IH" ne "1.prems" by metis
    then show ?thesis using r by simp
  qed
qed

lemma replace_lead_keeps_last:
  assumes "s \<noteq> []"
  shows "replace_lead lead repl s \<noteq> [] \<and> last (replace_lead lead repl s) = last s"
proof (cases "ci_prefix lead s")
  case False
  then show ?thesis using assms by (simp add: replace_lead_def)
next
  case True
  let ?r = "drop (length lead) s"
  show ?thesis
  proof (cases "space_dot_plus (length (takeWhile isWhiteSpace ?r)) ?r")
    case None
    then show ?thesis using assms True by (simp add: replace_lead_def Let_def)
  next
    case (Some a)
    obtain g m where a: "a = (g, m)" by (cases a)
    from space_dot_plus_Some[OF Some[unfolded a]] obtain k where
      g: "g \<noteq> []" and m: "m = k + length g"
      and gt: "g = takeWhile (\<lambda>c. \<not> isLineTerminator c) (drop k ?r)"
      by blast
    have res: "replace_lead lead repl s = repl @ g @ drop m ?r"
      using True Some a by (simp add: replace_lead_def Let_def)
    have dk: "drop k ?r = g @ drop m ?r"
      using gt m by (metis add.commute drop_drop takeWhile_dropWhile_id dropWhile_eq_drop)
    have rne: "drop k ?r \<noteq> []" using g gt by auto
    then have "last (drop k ?r) = last s"
      by (metis drop_drop drop_eq_Nil2 last_drop linorder_not_le)
    then have "last (g @ drop m ?r) = last s"
      using dk by simp
    then show ?thesis using res g by simp
  qed
qed

lemma nonempty_suffix_last: "suffix a b \<Longrightarrow> a \<noteq> [] \<Longrightarrow> last a = last b"
  by (auto simp: suffix_def)

lemma replace_how_keeps:
  assumes "s \<noteq> []" "\<not> isWordChar (last s)"
  shows "replace_how s = s"
proof -
  let ?r1 = "dropWhile isWhiteSpace (drop 3 s)"
  have "\<not> (takeWhile isWordChar ?r1 \<noteq> [] \<and> dropWhile isWordChar ?r1 = [])"
  proof
    assume a: "takeWhile isWordChar ?r1 \<noteq> [] \<and> dropWhile isWordChar ?r1 = []"
    then have ne: "?r1 \<noteq> []" by (metis takeWhile.simps(1))
    have "suffix ?r1 s"
      by (meson suffix_drop suffix_dropWhile suffix_order.trans)
    then have "last ?r1 = last s"
      using ne by (rule nonempty_suffix_last)
    moreover have "isWordChar (last ?r1)"
      using a ne by (metis dropWhile_eq_Nil_conv last_in_set)
    ultimately show False using assms(2) by simp
  qed
  then show ?thesis
    unfolding replace_how_def Let_def by (simp only: simp_thms if_False if_cancel)
qed

lemma canonicalize_k: "canonicalize CHR ''k'' = CHR ''K''"
  by (simp add: char_tables)

lemma punctuation_chars:
  "canonicalize CHR ''.'' = CHR ''.''" "canonicalize CHR ''!'' = CHR ''!''"
  "canonicalize CHR ''?'' = CHR ''?''"
  "\<not> isWordChar CHR ''.''" "\<not> isWordChar CHR ''!''" "\<not> isWordChar CHR ''?''"
  "\<not> isAsciiLetter CHR ''.''" "\<not> isAsciiLetter CHR ''!''" "\<not> isAsciiLetter CHR ''?''"
  "toUpperCase_char CHR ''.'' = ''.''" "toUpperCase_char CHR ''!'' = ''!''"
  "toUpperCase_char CHR ''?'' = ''?''"
  by (simp_all add: char_defs)

lemma punctuation_facts:
  assumes "p = CHR ''.'' \<or> p = CHR ''!'' \<or> p = CHR ''?''"
  shows "canonicalize p \<noteq> canonicalize CHR ''k''" "\<not> isWordChar p" "\<not> isAsciiLetter p"
    "toUpperCase_char p = [p]"
  using assms by (auto simp: punctuation_chars canonicalize_k)

lemma improveStructure_punctuation:
  assumes "input \<noteq> []" "last input = CHR ''.'' \<or> last input = CHR ''!'' \<or> last input = CHR ''?''"
  shows "improveStructure input \<noteq> [] \<and> last (improveStructure input) = last input"
proof -
  let ?t1 = "replace_not_work input"
  let ?t2 = "replace_lead ''make'' ''Implement '' ?t1"
  let ?t3 = "replace_lead ''want'' ''I need '' ?t2"
  let ?t4 = "replace_how ?t3"
  let ?t5 = "replace_final_letter ?t4"
  note pf = punctuation_facts[OF assms(2)]
  have 1: "?t1 \<noteq> [] \<and> last ?t1 = last input"
    using not_work_scan_keeps_last[OF assms(1) pf(1)] by (simp add: replace_not_work_def)
  have 2: "?t2 \<noteq> [] \<and> last ?t2 = last input"
    using replace_lead_keeps_last[of ?t1 "''make''" "''Implement ''"] 1 by simp
  have 3: "?t3 \<noteq> [] \<and> last ?t3 = last input"
    using replace_lead_keeps_last[of ?t2 "''want''" "''I need ''"] 2 by simp
  have 4: "?t4 \<noteq> [] \<and> last ?t4 = last input"
    using replace_how_keeps[of ?t3] 3 pf(2) by simp
  have 5: "?t5 \<noteq> [] \<and> last ?t5 = last input"
    using 4 pf(3) by (simp add: replace_final_letter_def)
  then obtain c cs where c: "?t5 = c # cs" by (cases ?t5) auto
  have i: "improveStructure input = toUpperCase_char c @ cs"
    using c by (simp add: improveStructure_unfold capitalize_def)
  show ?thesis
  proof (cases "cs = []")
    case True
    then have "c = last input" using 5 c by simp
    then show ?thesis using i True pf(4) by simp
  next
    case False
    then show ?thesis using i 5 c by simp
  qed
qed

lemma improve_examples:
  "improveStructure ''button not work'' = ''Button is not working correctly.''"
  "improveStructure ''make login form'' = ''Implement login form.''"
  "improveStructure ''want dark mode'' = ''I need dark mode.''"
  "improveStructure ''how closures'' = ''How does closures work.''"
  "improveStructure [] = []"
  "improveStructure ''123'' = ''123''"
  "improveStructure ''how 123'' = ''How does 123 work.''"
  "improveStructure ''it is slow.'' = ''It is slow.''"
  by code_simp+

text \<open>
  Claim C8, as amended. \<open>improveStructure\<close> applies its five rewrite rules in order, each to
  the output of the one before, and then upper-cases the first character. When the input
  begins with an ASCII letter the result begins with an uppercase ASCII letter. When the
  input ends with an ASCII letter the result ends with a period (the last rule appends it),
  and when the input ends with a period, an exclamation mark or a question mark the result
  ends with that same character. The two properties do not hold for every input: the empty
  input is returned as it is, and so is \<open>123\<close>.
  \<open>improveStructure("button not work")\<close> is \<open>Button is not working correctly.\<close>
\<close>

theorem improveStructure_sentence:
  "improveStructure input =
     capitalize (replace_final_letter (replace_how (replace_lead ''want'' ''I need ''
       (replace_lead ''make'' ''Implement '' (replace_not_work input)))))
   \<and> (input \<noteq> [] \<and> isAsciiLetter (hd input)
        \<longrightarrow> improveStructure input \<noteq> [] \<and> isAsciiUpper (hd (improveStructure input)))
   \<and> (input \<noteq> [] \<and> isAsciiLetter (last input)
        \<longrightarrow> improveStructure input \<noteq> [] \<and> last (improveStructure input) = CHR ''.'')
   \<and> (input \<noteq> [] \<and> (last input = CHR ''.'' \<or> last input = CHR ''!'' \<or> last input = CHR ''?'')
        \<longrightarrow> improveStructure input \<noteq> [] \<and> last (improveStructure input) = last input)
   \<and> improveStructure [] = []
   \<and> improveStructure ''123'' = ''123''
   \<and> improveStructure ''button not work'' = ''Button is not working correctly.''
   \<and> improveStructure ''make login form'' = ''Implement login form.''
   \<and> improveStructure ''want dark mode'' = ''I need dark mode.''
   \<and> improveStructure ''how closures'' = ''How does closures work.''
   \<and> improveStructure ''how 123'' = ''How does 123 work.''
   \<and> improveStructure ''it is slow.'' = ''It is slow.''"
proof -
  have h: "input \<noteq> [] \<and> isAsciiLetter (hd input)
        \<longrightarrow> improveStructure input \<noteq> [] \<and> isAsciiUpper (hd (improveStructure input))"
  proof
    assume a: "input \<noteq> [] \<and> isAsciiLetter (hd input)"
    then obtain c cs where "input = c # cs" "isAsciiLetter c"
      by (cases input) auto
    from improveStructure_head[OF this]
    show "improveStructure input \<noteq> [] \<and> isAsciiUpper (hd (improveStructure input))"
      by auto
  qed
  have l: "input \<noteq> [] \<and> isAsciiLetter (last input)
        \<longrightarrow> improveStructure input \<noteq> [] \<and> last (improveStructure input) = CHR ''.''"
    using improveStructure_last[of input] by blast
  have p: "input \<noteq> [] \<and> (last input = CHR ''.'' \<or> last input = CHR ''!'' \<or> last input = CHR ''?'')
        \<longrightarrow> improveStructure input \<noteq> [] \<and> last (improveStructure input) = last input"
    using improveStructure_punctuation[of input] by blast
  from h l p improveStructure_unfold[of input] improve_examples show ?thesis
    by blast
qed

theorem improveStructure_sentence_witness:
  "isAsciiUpper (hd (improveStructure ''fix it'')) \<and> last (improveStructure ''fix it'') = CHR ''.''
   \<and> isAsciiUpper (hd (improveStructure ''is it slow?''))
   \<and> last (improveStructure ''is it slow?'') = CHR ''?''"
proof -
  have h: "''fix it'' \<noteq> [] \<and> isAsciiLetter (hd ''fix it'')
            \<and> isAsciiLetter (last ''fix it'')"
    by (simp add: isAsciiLetter_def code_def)
  have q: "''is it slow?'' \<noteq> [] \<and> isAsciiLetter (hd ''is it slow?'')
            \<and> last ''is it slow?'' = CHR ''?''"
    by (simp add: isAsciiLetter_def code_def)
  have a: "isAsciiUpper (hd (improveStructure ''fix it''))
      \<and> last (improveStructure ''fix it'') = CHR ''.''"
    using improveStructure_sentence[of "''fix it''"] h by blast
  have b: "isAsciiUpper (hd (improveStructure ''is it slow?''))
      \<and> last (improveStructure ''is it slow?'') = last ''is it slow?''"
    using improveStructure_sentence[of "''is it slow?''"] q by blast
  from a b show ?thesis
    by simp
qed

theorem improveStructure_sentence_counterexample:
  "improveStructure [] = []
   \<and> improveStructure ''123'' = ''123''
   \<and> \<not> isAsciiUpper (hd ''123'')
   \<and> last ''123'' \<notin> set ''.!?''"
  using improve_examples(5,6) by (simp add: isAsciiUpper_def code_def)

subsection \<open>Replacing placeholders\<close>


lemma split_first_Some: "split_first pat s = Some (b, a) \<Longrightarrow> s = b @ pat @ a"
proof (induction s arbitrary: b)
  case Nil
  then show ?case by (simp split: if_splits)
next
  case (Cons c cs)
  show ?case
  proof (cases "prefix pat (c # cs)")
    case True
    then show ?thesis
      using Cons.prems by (auto simp: prefix_def)
  next
    case False
    then obtain b' where "split_first pat cs = Some (b', a)" "b = c # b'"
      using Cons.prems by (auto split: option.splits)
    then show ?thesis using Cons.IH by simp
  qed
qed

lemma split_first_skip:
  "c0 \<notin> set A \<Longrightarrow>
   split_first (c0 # r) (A @ S)
     = (case split_first (c0 # r) S of None \<Rightarrow> None | Some (b, a) \<Rightarrow> Some (A @ b, a))"
  by (induction A) (auto split: option.splits)

lemma split_first_here: "split_first (c0 # r) ((c0 # r) @ S) = Some ([], S)"
  by simp

lemma split_first_absent: "c0 \<notin> set S \<Longrightarrow> split_first (c0 # r) S = None"
  by (induction S) auto

lemma split_first_mismatch:
  "\<not> prefix r S \<Longrightarrow>
   split_first (c0 # r) (c0 # S)
     = (case split_first (c0 # r) S of None \<Rightarrow> None | Some (b, a) \<Rightarrow> Some (c0 # b, a))"
  by simp


lemma js_replace_here:
  "c0 \<notin> set A \<Longrightarrow>
   js_replace (A @ (c0 # r) @ S) (c0 # r) repl = A @ GetSubstitution (c0 # r) A S repl @ S"
  using split_first_skip[of c0 A r "(c0 # r) @ S"]
  by (simp add: js_replace_def)

lemma js_replace_absent: "split_first pat s = None \<Longrightarrow> js_replace s pat repl = s"
  by (simp add: js_replace_def)

lemma js_replace_last:
  assumes "s \<noteq> []" "last s \<noteq> CHR ''}''" "pat \<noteq> []" "last pat = CHR ''}''"
  shows "js_replace s pat repl \<noteq> [] \<and> last (js_replace s pat repl) = last s"
proof (cases "split_first pat s")
  case None
  then show ?thesis using assms by (simp add: js_replace_def)
next
  case (Some p)
  obtain b a where p: "p = (b, a)" by (cases p)
  have s: "s = b @ pat @ a"
    using split_first_Some Some p by blast
  have "a \<noteq> []"
    using s assms by auto
  then show ?thesis
    using Some p s by (simp add: js_replace_def)
qed

lemma fill_template_fold:
  "fill_template tpl enhanced contextStr =
     js_replace (fold (\<lambda>q s. js_replace s q enhanced) content_placeholders tpl)
       ''{context}'' contextStr"
  by (simp add: fill_template_def content_placeholders_def)

lemma content_placeholder_shape:
  "q \<in> set content_placeholders \<Longrightarrow> \<exists>q'. q = CHR ''{'' # q' \<and> q' \<noteq> [] \<and> last q = CHR ''}''"
  by (auto simp: content_placeholders_def)

lemma fold_replace_last:
  assumes "s \<noteq> []" "last s \<noteq> CHR ''}''" "set qs \<subseteq> set content_placeholders"
  shows "fold (\<lambda>q s. js_replace s q enhanced) qs s \<noteq> []
         \<and> last (fold (\<lambda>q s. js_replace s q enhanced) qs s) = last s"
  using assms
proof (induction qs arbitrary: s)
  case Nil
  then show ?case by simp
next
  case (Cons q qs)
  obtain q' where "q = CHR ''{'' # q'" "last q = CHR ''}''"
    using content_placeholder_shape[of q] Cons.prems by auto
  then have "js_replace s q enhanced \<noteq> [] \<and> last (js_replace s q enhanced) = last s"
    using js_replace_last[of s q enhanced] Cons.prems by simp
  then show ?case
    using Cons.IH[of "js_replace s q enhanced"] Cons.prems by simp
qed

lemma fill_template_last:
  assumes "tpl \<noteq> []" "last tpl \<noteq> CHR ''}''"
  shows "fill_template tpl enhanced contextStr \<noteq> []
         \<and> last (fill_template tpl enhanced contextStr) = last tpl"
proof -
  let ?t = "fold (\<lambda>q s. js_replace s q enhanced) content_placeholders tpl"
  have "?t \<noteq> [] \<and> last ?t = last tpl"
    using fold_replace_last[OF assms, of content_placeholders enhanced] by simp
  then show ?thesis
    using js_replace_last[of ?t "''{context}''" contextStr] assms
    by (simp add: fill_template_fold)
qed

text \<open>A content placeholder does not occur in a text whose only brace is \<open>{context}\<close>.\<close>

lemma absent_beside_context:
  assumes "CHR ''{'' \<notin> set X" "CHR ''{'' \<notin> set Y" "q \<in> set content_placeholders"
  shows "split_first q (X @ ''{context}'' @ Y) = None"
proof -
  obtain q' where q: "q = CHR ''{'' # q'"
    using content_placeholder_shape[OF assms(3)] by blast
  have np: "\<not> prefix q' (''context}'' @ Y)"
    using assms(3) q by (auto simp: content_placeholders_def)
  have "split_first q (''context}'' @ Y) = None"
    unfolding q using assms(2) by (intro split_first_absent) simp
  then have "split_first q (CHR ''{'' # ''context}'' @ Y) = None"
    unfolding q using np by simp
  then show ?thesis
    unfolding q using split_first_skip[OF assms(1), of q' "''{context}'' @ Y"] by simp
qed



lemma fold_absent:
  "\<forall>q \<in> set qs. split_first q s = None \<Longrightarrow> fold (\<lambda>q s. js_replace s q e) qs s = s"
  by (induction qs) (auto simp: js_replace_absent)


text \<open>The chain on a template whose only placeholder is \<open>{context}\<close>: the description is
  not used.\<close>

lemma fill_template_context_only:
  assumes "CHR ''{'' \<notin> set A" "CHR ''{'' \<notin> set B"
  shows "fill_template (A @ ''{context}'' @ B) E C
           = A @ GetSubstitution ''{context}'' A B C @ B"
proof -
  let ?T = "A @ ''{context}'' @ B"
  have "fold (\<lambda>q s. js_replace s q E) content_placeholders ?T = ?T"
    using absent_beside_context[OF assms] by (intro fold_absent) blast
  then show ?thesis
    using js_replace_here[OF assms(1), of "''context}''" B C]
    by (simp add: fill_template_fold)
qed

subsection \<open>The first template of every intent\<close>

lemma template_intents:
  "tpl_intent template_fix_bug = IFix"
  "tpl_intent template_fix_error = IFix"
  "tpl_intent template_add_feature = IAdd"
  "tpl_intent template_add_function = IAdd"
  "tpl_intent template_change_refactor = IChange"
  "tpl_intent template_change_update = IChange"
  "tpl_intent template_explain_code = IExplain"
  "tpl_intent template_explain_simple = IExplain"
  "tpl_intent template_test_unit = ITest"
  "tpl_intent template_test_specific = ITest"
  "tpl_intent template_review_code = IReview"
  "tpl_intent template_review_security = IReview"
  "tpl_intent template_improve_performance = IImprove"
  "tpl_intent template_improve_readability = IImprove"
  "tpl_intent template_document_code = IDocument"
  "tpl_intent template_document_readme = IDocument"
  by (simp_all add: template_fix_bug_def template_fix_error_def template_add_feature_def template_add_function_def template_change_refactor_def template_change_update_def template_explain_code_def template_explain_simple_def template_test_unit_def template_test_specific_def template_review_code_def template_review_security_def template_improve_performance_def template_improve_readability_def template_document_code_def template_document_readme_def)

lemma getTemplatesByIntent_eq:
  "getTemplatesByIntent IFix = [template_fix_bug, template_fix_error]"
  "getTemplatesByIntent IAdd = [template_add_feature, template_add_function]"
  "getTemplatesByIntent IChange = [template_change_refactor, template_change_update]"
  "getTemplatesByIntent IExplain = [template_explain_code, template_explain_simple]"
  "getTemplatesByIntent ITest = [template_test_unit, template_test_specific]"
  "getTemplatesByIntent IReview = [template_review_code, template_review_security]"
  "getTemplatesByIntent IImprove = [template_improve_performance, template_improve_readability]"
  "getTemplatesByIntent IDocument = [template_document_code, template_document_readme]"
  by (simp_all add: getTemplatesByIntent_def PROMPT_TEMPLATES_def template_intents)

text \<open>The first template of every intent, split at its placeholders.\<close>

lemma first_template_split:
  "template template_fix_bug =
     ''Fix the bug in this code. The issue is: ''
     @ ''{issue}''
     @ ''\<newline>\<newline>''
     @ ''{context}''
     @ ''\<newline>\<newline>Please:\<newline>1. Identify the root cause of the bug\<newline>2. Provide a corrected implementation\<newline>3. Explain what was wrong and why the fix works''"
  "template template_add_feature =
     ''Add the following feature: ''
     @ ''{feature}''
     @ ''\<newline>\<newline>''
     @ ''{context}''
     @ ''\<newline>\<newline>Requirements:\<newline>- Follow existing code patterns and conventions\<newline>- Include proper error handling\<newline>- Make it production-ready''"
  "template template_change_refactor =
     ''Refactor this code to: ''
     @ ''{goal}''
     @ ''\<newline>\<newline>''
     @ ''{context}''
     @ ''\<newline>\<newline>Guidelines:\<newline>- Maintain the same functionality\<newline>- Improve code quality and readability\<newline>- Follow best practices for this language''"
  "template template_explain_code =
     ''Explain this code in detail:\<newline>\<newline>''
     @ ''{context}''
     @ ''\<newline>\<newline>Please cover:\<newline>1. What this code does (high-level overview)\<newline>2. How it works (step-by-step breakdown)\<newline>3. Key concepts or patterns used\<newline>4. Any potential issues or improvements''"
  "template template_test_unit =
     ''Write unit tests for this code:\<newline>\<newline>''
     @ ''{context}''
     @ ''\<newline>\<newline>Include tests for:\<newline>- Normal/expected inputs\<newline>- Edge cases\<newline>- Error conditions\<newline>- Boundary values\<newline>\<newline>Use the testing framework appropriate for this language/project.''"
  "template template_review_code =
     ''Review this code for:\<newline>\<newline>''
     @ ''{context}''
     @ ''\<newline>\<newline>Please check for:\<newline>1. Bugs or logic errors\<newline>2. Security vulnerabilities\<newline>3. Performance issues\<newline>4. Code style and best practices\<newline>5. Suggestions for improvement''"
  "template template_improve_performance =
     ''Optimize this code for better performance:\<newline>\<newline>''
     @ ''{context}''
     @ ''\<newline>\<newline>Focus on:\<newline>- Reducing time complexity\<newline>- Minimizing memory usage\<newline>- Eliminating unnecessary operations\<newline>- Using more efficient algorithms/data structures''"
  "template template_document_code =
     ''Add documentation to this code:\<newline>\<newline>''
     @ ''{context}''
     @ ''\<newline>\<newline>Include:\<newline>- Function/method documentation (JSDoc, docstrings, etc.)\<newline>- Inline comments for complex logic\<newline>- Usage examples where helpful''"
  by (simp_all add: template_fix_bug_def template_add_feature_def template_change_refactor_def template_explain_code_def template_test_unit_def template_review_code_def template_improve_performance_def template_document_code_def)




lemma fill_explain_code:
  "fill_template (template template_explain_code) E C =
     ''Explain this code in detail:\<newline>\<newline>''
     @ GetSubstitution ''{context}'' ''Explain this code in detail:\<newline>\<newline>''
         ''\<newline>\<newline>Please cover:\<newline>1. What this code does (high-level overview)\<newline>2. How it works (step-by-step breakdown)\<newline>3. Key concepts or patterns used\<newline>4. Any potential issues or improvements'' C
     @ ''\<newline>\<newline>Please cover:\<newline>1. What this code does (high-level overview)\<newline>2. How it works (step-by-step breakdown)\<newline>3. Key concepts or patterns used\<newline>4. Any potential issues or improvements''"
  unfolding first_template_split
  by (subst fill_template_context_only) simp_all





lemma prompt_unfold:
  "prompt (RuleEngine_enhance request) =
     (case getTemplatesByIntent (intent request) of
        t # _ \<Rightarrow> fill_template (template t) (improveStructure (expandWords (userInput request)))
                   (formatContext request)
      | [] \<Rightarrow> improveStructure (expandWords (userInput request)) @ ''\<newline>\<newline>''
               @ formatContext request)
     @ (if snd (addTechnicalTerms (userInput request)) \<noteq> []
        then related_concepts (snd (addTechnicalTerms (userInput request))) else [])"
  by (simp add: RuleEngine_enhance_def Let_def)

subsection \<open>The rule engine on two requests\<close>


lemma enhance_button:
  "RuleEngine_enhance request_button =
     \<lparr>prompt =
        ''Fix the bug in this code. The issue is: Button is not functioning as expected when click.\<newline>\<newline>\<newline>\<newline>Please:\<newline>1. Identify the root cause of the bug\<newline>2. Provide a corrected implementation\<newline>3. Explain what was wrong and why the fix works\<newline>\<newline>*Related concepts: onClick event, event handler, user interaction*'',
      preview =
        ''Fix the bug in this code. The issue is: Button is not functioning as expected when click.\<newline>\<newline>\<newline>\<newline>Please:\<newline>1. Identify the root cause of the bug\<newline>2. Provide a corrected implementation\<newline>3. Explain what was wro...'',
      wasAiEnhanced = False\<rparr>"
  by code_simp

lemma enhance_add_x:
  "RuleEngine_enhance request_add_x =
     \<lparr>prompt =
        ''Add the following feature: X.\<newline>\<newline>\<newline>\<newline>Requirements:\<newline>- Follow existing code patterns and conventions\<newline>- Include proper error handling\<newline>- Make it production-ready'',
      preview =
        ''Add the following feature: X.\<newline>\<newline>\<newline>\<newline>Requirements:\<newline>- Follow existing code patterns and conventions\<newline>- Include proper error handling\<newline>- Make it production-ready'',
      wasAiEnhanced = False\<rparr>"
  by code_simp

subsection \<open>Previews\<close>


lemma ai_result_preview: "preview (ai_result x) = take 200 (prompt (ai_result x))"
  by (simp add: ai_result_def substring_0_200_def)

lemma fallback_result_preview:
  "preview (fallback_result x) = take 200 (prompt (fallback_result x))"
  by (simp add: fallback_result_def substring_0_200_def)

lemma callOllamaAPI_preview:
  "fst (callOllamaAPI e input s) = Inr r \<Longrightarrow> preview r = take 200 (prompt r)"
  by (auto simp: callOllamaAPI_def do_fetch_def Let_def ai_result_preview
      split: fetch_result.splits http_body.splits sum.splits if_splits)

lemma callAnthropicAPI_preview:
  "fst (callAnthropicAPI e input k s) = Inr r \<Longrightarrow> preview r = take 200 (prompt r)"
  by (auto simp: callAnthropicAPI_def do_fetch_def ai_result_preview
      split: fetch_result.splits http_body.splits sum.splits if_splits)

lemma callOpenAIAPI_preview:
  "fst (callOpenAIAPI e input k s) = Inr r \<Longrightarrow> preview r = take 200 (prompt r)"
  by (auto simp: callOpenAIAPI_def do_fetch_def ai_result_preview
      split: fetch_result.splits http_body.splits sum.splits if_splits)

lemma manual_preview:
  assumes "fst (enhanceWithManualAPI e input fb s) = Inr r"
  shows "preview r = take 200 (prompt r)"
proof -
  let ?p = "config_get e ''manualProvider'' ''ollama''"
  let ?k = "config_get e ''apiKey'' ''''"
  show ?thesis
  proof (cases "?p = ''ollama''")
    case True
    then show ?thesis
      using assms callOllamaAPI_preview[of e input s r]
      by (simp add: enhanceWithManualAPI_def Let_def)
  next
    case False
    note np = this
    show ?thesis
    proof (cases "?k = []")
      case True
      then show ?thesis
        using assms np fallback_result_preview[of fb]
        by (auto simp: enhanceWithManualAPI_def Let_def)
    next
      case False
      then show ?thesis
        using assms np fallback_result_preview[of fb]
          callAnthropicAPI_preview[of e input ?k s r] callOpenAIAPI_preview[of e input ?k s r]
        by (auto simp: enhanceWithManualAPI_def Let_def split: prod.splits sum.splits if_splits)
    qed
  qed
qed

lemma provider_preview:
  "fst (enhanceWithProvider e p input fb s) = Inr r \<Longrightarrow> preview r = take 200 (prompt r)"
  using manual_preview[of e input fb s r] fallback_result_preview[of fb]
  by (cases p) (auto simp: enhanceWithProvider_def)

lemma map_sum_Some_iff: "map_sum id Some x = Inr (Some r) \<longleftrightarrow> x = Inr r"
  by (cases x) auto

lemma try_ai_preview:
  assumes "fst (try_ai e mode input fb now s) = Inr (Some r)"
  shows "preview r = take 200 (prompt r)"
proof (cases "mode = ''auto''")
  case True
  obtain running models s1 where c: "checkOllama e s = ((running, models), s1)"
    by (metis prod.exhaust)
  obtain found s2 where d: "LLMDetector_detect e False now s1 = (found, s2)"
    by (metis prod.exhaust)
  show ?thesis
    using assms True c d callOllamaAPI_preview[of e input s1 r]
      provider_preview[of e "provider found" input fb s2 r]
    by (auto simp: try_ai_def map_sum_Some_iff split: prod.splits if_splits)
next
  case False
  then show ?thesis
    using assms manual_preview[of e input fb s r]
    by (auto simp: try_ai_def map_sum_Some_iff split: prod.splits if_splits)
qed

lemma enhance_preview:
  assumes "fst (AIEnhancer_enhance e input fb now s) = Inr r"
  shows "preview r = take 200 (prompt r)"
  using assms fallback_result_preview[of fb]
    try_ai_preview[of e "config_get e ''enhancementMode'' ''auto''" input fb now s r]
  by (auto simp: AIEnhancer_enhance_def Let_def split: prod.splits sum.splits option.splits if_splits)

lemma rule_preview:
  "preview (RuleEngine_enhance request) = make_preview (prompt (RuleEngine_enhance request))"
  by (simp add: RuleEngine_enhance_def Let_def)


text \<open>
  Claim C4, as amended. For a result of \<open>RuleEngine.enhance\<close>: when the final prompt is
  longer than 200 characters, the preview is its first 200 characters followed by \<open>...\<close>, so
  it has length 203 and its first 200 characters are a prefix of the prompt; otherwise the
  preview is the prompt. For a result of \<open>AIEnhancer.enhance\<close>: the preview is the first 200
  characters of the prompt with no ellipsis, so it is a prefix of the prompt, of length 200
  when the prompt is longer than 200 characters, and the prompt itself otherwise.
\<close>

theorem preview_truncation:
  "(length (prompt (RuleEngine_enhance request)) > 200 \<longrightarrow>
      preview (RuleEngine_enhance request)
        = take 200 (prompt (RuleEngine_enhance request)) @ ''...''
      \<and> length (preview (RuleEngine_enhance request)) = 203
      \<and> prefix (take 200 (preview (RuleEngine_enhance request)))
            (prompt (RuleEngine_enhance request)))
   \<and> (length (prompt (RuleEngine_enhance request)) \<le> 200 \<longrightarrow>
      preview (RuleEngine_enhance request) = prompt (RuleEngine_enhance request))
   \<and> (fst (AIEnhancer_enhance e input rb now s) = Inr r \<longrightarrow>
      preview r = take 200 (prompt r)
      \<and> prefix (preview r) (prompt r)
      \<and> (length (prompt r) > 200 \<longrightarrow> length (preview r) = 200)
      \<and> (length (prompt r) \<le> 200 \<longrightarrow> preview r = prompt r))"
proof -
  let ?p = "prompt (RuleEngine_enhance request)"
  let ?v = "preview (RuleEngine_enhance request)"
  have v: "?v = make_preview ?p"
    by (rule rule_preview)
  have long: "length ?p > 200 \<longrightarrow>
      ?v = take 200 ?p @ ''...'' \<and> length ?v = 203 \<and> prefix (take 200 ?v) ?p"
    by (simp add: v make_preview_def take_is_prefix)
  have short: "length ?p \<le> 200 \<longrightarrow> ?v = ?p"
    by (simp add: v make_preview_def)
  have ai: "fst (AIEnhancer_enhance e input rb now s) = Inr r \<longrightarrow>
      preview r = take 200 (prompt r)
      \<and> prefix (preview r) (prompt r)
      \<and> (length (prompt r) > 200 \<longrightarrow> length (preview r) = 200)
      \<and> (length (prompt r) \<le> 200 \<longrightarrow> preview r = prompt r)"
  proof
    assume "fst (AIEnhancer_enhance e input rb now s) = Inr r"
    then have "preview r = take 200 (prompt r)"
      by (rule enhance_preview)
    then show "preview r = take 200 (prompt r)
      \<and> prefix (preview r) (prompt r)
      \<and> (length (prompt r) > 200 \<longrightarrow> length (preview r) = 200)
      \<and> (length (prompt r) \<le> 200 \<longrightarrow> preview r = prompt r)"
      by (simp add: take_is_prefix)
  qed
  from long short ai show ?thesis by blast
qed

lemma rule_only_long:
  "fst (AIEnhancer_enhance env_rule_only ''x'' (replicate 201 (CHR ''a'')) 0 initial_state)
     = Inr \<lparr>prompt = replicate 201 (CHR ''a''), preview = replicate 200 (CHR ''a''),
            wasAiEnhanced = False\<rparr>"
  by (simp add: AIEnhancer_enhance_def env_rule_only_def config_get_def fallback_result_def
      substring_0_200_def)

lemma button_lengths:
  "length (prompt (RuleEngine_enhance request_button)) = 292"
  "length (prompt (RuleEngine_enhance request_add_x)) = 153"
  by (simp_all add: enhance_button enhance_add_x)

theorem preview_truncation_witness:
  "length (preview (RuleEngine_enhance request_button)) = 203
   \<and> prefix (take 200 (preview (RuleEngine_enhance request_button)))
        (prompt (RuleEngine_enhance request_button))
   \<and> preview (RuleEngine_enhance request_add_x) = prompt (RuleEngine_enhance request_add_x)
   \<and> length (preview \<lparr>prompt = replicate 201 (CHR ''a''), preview = replicate 200 (CHR ''a''),
                        wasAiEnhanced = False\<rparr>) = 200"
proof -
  have h1: "length (prompt (RuleEngine_enhance request_button)) > 200"
    by (simp add: button_lengths)
  have h2: "length (prompt (RuleEngine_enhance request_add_x)) \<le> 200"
    by (simp add: button_lengths)
  have h3: "length (prompt \<lparr>prompt = replicate 201 (CHR ''a''), preview = replicate 200 (CHR ''a''),
                        wasAiEnhanced = False\<rparr>) > 200"
    by simp
  show ?thesis
    using h1 h2 h3 rule_only_long
      preview_truncation[of request_button env_rule_only "''x''" "replicate 201 (CHR ''a'')" 0
        initial_state "\<lparr>prompt = replicate 201 (CHR ''a''), preview = replicate 200 (CHR ''a''),
                        wasAiEnhanced = False\<rparr>"]
      preview_truncation[of request_add_x env_rule_only "''x''" "replicate 201 (CHR ''a'')" 0
        initial_state "\<lparr>prompt = replicate 201 (CHR ''a''), preview = replicate 200 (CHR ''a''),
                        wasAiEnhanced = False\<rparr>"]
    by blast
qed

theorem preview_truncation_counterexample:
  "length (prompt (RuleEngine_enhance request_button)) > 200
   \<and> \<not> prefix (preview (RuleEngine_enhance request_button))
          (prompt (RuleEngine_enhance request_button))
   \<and> fst (AIEnhancer_enhance env_rule_only ''x'' (replicate 201 (CHR ''a'')) 0 initial_state)
       = Inr \<lparr>prompt = replicate 201 (CHR ''a''), preview = replicate 200 (CHR ''a''),
              wasAiEnhanced = False\<rparr>
   \<and> length (replicate 201 (CHR ''a'')) > 200
   \<and> length (replicate 200 (CHR ''a'')) \<noteq> 203"
proof -
  have "\<not> prefix (preview (RuleEngine_enhance request_button))
          (prompt (RuleEngine_enhance request_button))"
    unfolding enhance_button by code_simp
  then show ?thesis
    using rule_only_long by (simp add: button_lengths)
qed

subsection \<open>Technical terms\<close>


lemma fold_collect:
  "fold (\<lambda>mapping termsAdded.
           if list_ex (\<lambda>kw. str_includes l kw) (trigger_words mapping)
           then termsAdded @ technicalTerms mapping else termsAdded) ms acc
   = acc @ concat (map technicalTerms
             (filter (\<lambda>m. \<exists>kw \<in> set (trigger_words m). sublist kw l) ms))"
  by (induction ms arbitrary: acc) (auto simp: list_ex_iff includes_iff_sublist)

lemma collect_terms_eq:
  "collect_terms l =
     concat (map technicalTerms
       (filter (\<lambda>m. \<exists>kw \<in> set (trigger_words m). sublist kw l) TECHNICAL_ENHANCEMENTS))"
  by (simp add: collect_terms_def fold_collect)

lemma unique_terms_snoc:
  "unique_terms (xs @ [x]) =
     (if x \<in> set (unique_terms xs) then unique_terms xs else unique_terms xs @ [x])"
  by (simp add: unique_terms_def)

lemma unique_terms_eq:
  "unique_terms xs = rev (remdups (rev xs)) \<and> set (unique_terms xs) = set xs"
proof (induction xs rule: rev_induct)
  case Nil
  then show ?case by (simp add: unique_terms_def)
next
  case (snoc x xs)
  then show ?case by (auto simp: unique_terms_snoc)
qed

lemma unique_terms_distinct: "distinct (unique_terms xs)"
  by (simp add: unique_terms_eq)

lemma related_concepts_last: "last (related_concepts hs) = CHR ''*''"
  by (simp add: related_concepts_def)

lemma first_template_ends:
  "template template_fix_bug \<noteq> [] \<and> last (template template_fix_bug) = CHR ''s''"
  "template template_add_feature \<noteq> [] \<and> last (template template_add_feature) = CHR ''y''"
  "template template_change_refactor \<noteq> [] \<and> last (template template_change_refactor) = CHR ''e''"
  "template template_explain_code \<noteq> [] \<and> last (template template_explain_code) = CHR ''s''"
  "template template_test_unit \<noteq> [] \<and> last (template template_test_unit) = CHR ''.''"
  "template template_review_code \<noteq> [] \<and> last (template template_review_code) = CHR ''t''"
  "template template_improve_performance \<noteq> [] \<and> last (template template_improve_performance) = CHR ''s''"
  "template template_document_code \<noteq> [] \<and> last (template template_document_code) = CHR ''l''"
  by code_simp+

lemma first_template_last:
  "\<exists>t ts. getTemplatesByIntent i = t # ts \<and> template t \<noteq> []
      \<and> last (template t) \<noteq> CHR ''}'' \<and> last (template t) \<noteq> CHR ''*''"
  by (cases i) (simp_all add: getTemplatesByIntent_eq first_template_ends)

lemma base_prompt_last:
  "(case getTemplatesByIntent i of
      t # _ \<Rightarrow> fill_template (template t) E C
    | [] \<Rightarrow> E @ ''\<newline>\<newline>'' @ C) \<noteq> []
   \<and> last (case getTemplatesByIntent i of
              t # _ \<Rightarrow> fill_template (template t) E C
            | [] \<Rightarrow> E @ ''\<newline>\<newline>'' @ C) \<noteq> CHR ''*''"
proof -
  obtain t ts where t: "getTemplatesByIntent i = t # ts" "template t \<noteq> []"
    "last (template t) \<noteq> CHR ''}''" "last (template t) \<noteq> CHR ''*''"
    using first_template_last[of i] by blast
  show ?thesis
    using fill_template_last[OF t(2,3), of E C] t by simp
qed

lemma suffix_last: "suffix xs ys \<Longrightarrow> xs \<noteq> [] \<Longrightarrow> last ys = last xs"
  by (auto simp: suffix_def)

text \<open>
  Claim C9. In \<open>RuleEngine.enhance\<close> the hints are computed from the original user input:
  they are the hint terms of every cluster one of whose trigger keywords is a substring of
  the lower-cased input, in cluster order, with later duplicates removed (the first
  occurrence of every term stays, so the list has no duplicates). The final prompt ends with
  the trailing line \<open>*Related concepts: \<dots>*\<close> holding the hints joined by a comma and a
  space if and only if the hint list is not empty.
\<close>

theorem related_concepts_hints:
  "snd (addTechnicalTerms (userInput request))
     = rev (remdups (rev (concat (map technicalTerms
         (filter (\<lambda>m. \<exists>kw \<in> set (trigger_words m). sublist kw (toLowerCase (userInput request)))
            TECHNICAL_ENHANCEMENTS)))))
   \<and> distinct (snd (addTechnicalTerms (userInput request)))
   \<and> related_concepts (snd (addTechnicalTerms (userInput request)))
       = ''\<newline>\<newline>*Related concepts: ''
         @ join '', '' (snd (addTechnicalTerms (userInput request))) @ ''*''
   \<and> (snd (addTechnicalTerms (userInput request)) \<noteq> []
        \<longleftrightarrow> suffix (related_concepts (snd (addTechnicalTerms (userInput request))))
              (prompt (RuleEngine_enhance request)))"
proof -
  let ?h = "snd (addTechnicalTerms (userInput request))"
  let ?base = "case getTemplatesByIntent (intent request) of
        t # _ \<Rightarrow> fill_template (template t) (improveStructure (expandWords (userInput request)))
                   (formatContext request)
      | [] \<Rightarrow> improveStructure (expandWords (userInput request)) @ ''\<newline>\<newline>''
               @ formatContext request"
  have h: "?h = unique_terms (collect_terms (toLowerCase (userInput request)))"
    by (simp add: addTechnicalTerms_def Let_def)
  have c1: "?h = rev (remdups (rev (concat (map technicalTerms
         (filter (\<lambda>m. \<exists>kw \<in> set (trigger_words m). sublist kw (toLowerCase (userInput request)))
            TECHNICAL_ENHANCEMENTS)))))"
    unfolding h by (simp add: unique_terms_eq collect_terms_eq)
  have c2: "distinct ?h"
    unfolding h by (rule unique_terms_distinct)
  have c3: "related_concepts ?h = ''\<newline>\<newline>*Related concepts: '' @ join '', '' ?h @ ''*''"
    by (simp add: related_concepts_def)
  have p: "prompt (RuleEngine_enhance request)
             = ?base @ (if ?h \<noteq> [] then related_concepts ?h else [])"
    by (rule prompt_unfold)
  have c4: "?h \<noteq> [] \<longleftrightarrow> suffix (related_concepts ?h) (prompt (RuleEngine_enhance request))"
  proof
    assume "?h \<noteq> []"
    then show "suffix (related_concepts ?h) (prompt (RuleEngine_enhance request))"
      unfolding p by (simp add: suffix_def)
  next
    assume s: "suffix (related_concepts ?h) (prompt (RuleEngine_enhance request))"
    show "?h \<noteq> []"
    proof
      assume e: "?h = []"
      then have "prompt (RuleEngine_enhance request) = ?base"
        unfolding p by simp
      moreover have "related_concepts ?h \<noteq> []"
        by (simp add: related_concepts_def)
      ultimately have "last ?base = CHR ''*''"
        using suffix_last[OF s] related_concepts_last[of ?h] by simp
      then show False
        using base_prompt_last[where i = "intent request"
            and E = "improveStructure (expandWords (userInput request))"
            and C = "formatContext request"]
        by simp
    qed
  qed
  from c1 c2 c3 c4 show ?thesis by blast
qed

theorem related_concepts_hints_witness:
  "snd (addTechnicalTerms (userInput request_button))
     = [''onClick event'', ''event handler'', ''user interaction'']
   \<and> suffix (related_concepts [''onClick event'', ''event handler'', ''user interaction''])
        (prompt (RuleEngine_enhance request_button))
   \<and> \<not> suffix (related_concepts []) (prompt (RuleEngine_enhance request_add_x))"
proof -
  have h1: "snd (addTechnicalTerms (userInput request_button))
      = [''onClick event'', ''event handler'', ''user interaction'']"
    by code_simp
  have h2: "snd (addTechnicalTerms (userInput request_add_x)) = []"
    by code_simp
  have n1: "snd (addTechnicalTerms (userInput request_button)) \<noteq> []"
    by (simp add: h1)
  have a: "suffix (related_concepts (snd (addTechnicalTerms (userInput request_button))))
             (prompt (RuleEngine_enhance request_button))"
    using related_concepts_hints[of request_button] n1 by blast
  have b: "\<not> suffix (related_concepts (snd (addTechnicalTerms (userInput request_add_x))))
               (prompt (RuleEngine_enhance request_add_x))"
    using related_concepts_hints[of request_add_x] h2 by blast
  show ?thesis
    using a[unfolded h1] b[unfolded h2] h1 by blast
qed
subsection \<open>No placeholder token is left in the prompt\<close>











subsection \<open>Requests that carry placeholder or pattern text\<close>

lemma explain_requests:
  "intent request_dollar = IExplain"
  "userInput request_dollar = ''explain''"
  "formatContext request_dollar
     = ''\<newline>**Code:**\<newline>'' @ [CHR 0x60, CHR 0x60, CHR 0x60]
       @ ''\<newline>s.replace(re, '$&')\<newline>'' @ [CHR 0x60, CHR 0x60, CHR 0x60]"
  "intent request_token_in_code = IExplain"
  "userInput request_token_in_code = ''explain''"
  "formatContext request_token_in_code
     = ''\<newline>**Code:**\<newline>'' @ [CHR 0x60, CHR 0x60, CHR 0x60]
       @ ''\<newline>log('{issue}')\<newline>'' @ [CHR 0x60, CHR 0x60, CHR 0x60]"
  "snd (addTechnicalTerms ''explain'') = []"
  by code_simp+

text \<open>
  Claim C5, at a request the code mishandles. The selected code holds the pattern \<open>$&\<close>;
  \<open>String.prototype.replace\<close> reads it in the replacement text as "the matched text", so
  the prompt holds the user's code with \<open>$&\<close> turned into \<open>{context}\<close>: the placeholder
  is not replaced by the rendered context block.
\<close>

theorem dollar_pattern_in_context:
  "formatContext request_dollar
     = ''\<newline>**Code:**\<newline>'' @ [CHR 0x60, CHR 0x60, CHR 0x60]
       @ ''\<newline>s.replace(re, '$&')\<newline>'' @ [CHR 0x60, CHR 0x60, CHR 0x60]
   \<and> prompt (RuleEngine_enhance request_dollar)
     = ''Explain this code in detail:\<newline>\<newline>''
       @ ''\<newline>**Code:**\<newline>'' @ [CHR 0x60, CHR 0x60, CHR 0x60]
       @ ''\<newline>s.replace(re, '{context}')\<newline>'' @ [CHR 0x60, CHR 0x60, CHR 0x60]
       @ ''\<newline>\<newline>Please cover:\<newline>''
       @ ''1. What this code does (high-level overview)\<newline>''
       @ ''2. How it works (step-by-step breakdown)\<newline>''
       @ ''3. Key concepts or patterns used\<newline>''
       @ ''4. Any potential issues or improvements''"
  by (simp add: prompt_unfold explain_requests getTemplatesByIntent_eq fill_explain_code)






end
